theory Spec2Isabelle
  imports Main "HOL-Library.Word"
begin

unbundle bit_operations_syntax

text \<open>
  A shallow embedding of the core of the NixieClock firmware (ATmega168/328, avr-gcc):
  the timekeeper of clock.c, the event queue of event.c, the virtual display streams
  and the crossfade of nixie.c, and the music player of player.c. Each C function is a
  HOL function of the same name on a record of the variables it uses; fixed-width
  integers are words, so arithmetic wraps as it does on the target. The definitions
  come first, the statements about them follow from the section on the timekeeper's
  properties on.
\<close>

section \<open>Machine types\<close>

type_synonym uint8_t = "8 word"
type_synonym uint16_t = "16 word"

section \<open>Timekeeper (clock.c)\<close>

text \<open>The structs \<^verbatim>\<open>time_t\<close> and \<^verbatim>\<open>date_t\<close> of clock.h, and the module variables
  \<^verbatim>\<open>time\<close>, \<^verbatim>\<open>date\<close> and \<^verbatim>\<open>run\<close> of clock.c gathered in one record.\<close>

record time_t =
  hour :: uint8_t
  minute :: uint8_t
  second :: uint8_t

record date_t =
  year :: uint16_t
  month :: uint8_t
  day :: uint8_t

record clock_t =
  time :: time_t
  date :: date_t
  run :: uint8_t

text \<open>The table \<^verbatim>\<open>days_month[]\<close>: thirteen bytes, index 0 unused.\<close>

definition days_month :: "uint8_t list" where
  "days_month = [00, 31, 28, 31, 30, 31, 30, 31, 31, 30, 31, 30, 31]"

text \<open>\<^verbatim>\<open>days_in_month(month, year)\<close>. The table read is out of bounds for a month
  above 12; the model returns \<open>None\<close> there.\<close>

definition days_in_month :: "uint8_t \<Rightarrow> uint16_t \<Rightarrow> uint8_t option" where
  "days_in_month m y =
     (if unat m < length days_month then
        (let ret = days_month ! unat m in
         Some (if m = 2 \<and> y AND 0x0003 = 0 \<and> y mod 100 \<noteq> 0 then ret + 1 else ret))
      else None)"

text \<open>\<^verbatim>\<open>time_date_update()\<close>, called once per second from the tick interrupt.\<close>

definition time_date_update :: "clock_t \<Rightarrow> clock_t option" where
  "time_date_update c =
     (if run c = 0 then Some c
      else
        let t = time c; d = date c;
            t = t\<lparr>second := second t + 1\<rparr>
        in if second t \<ge> 60 then
             let t = t\<lparr>second := 0\<rparr>;
                 t = t\<lparr>minute := minute t + 1\<rparr>
             in if minute t \<ge> 60 then
                  let t = t\<lparr>minute := 0\<rparr>;
                      t = t\<lparr>hour := hour t + 1\<rparr>
                  in if hour t \<ge> 24 then
                       let t = t\<lparr>hour := 0\<rparr>;
                           d = d\<lparr>day := day d + 1\<rparr>
                       in (case days_in_month (month d) (year d) of
                             None \<Rightarrow> None
                           | Some dim \<Rightarrow>
                               if day d > dim then
                                 let d = d\<lparr>month := month d + 1\<rparr>
                                 in if month d > 12 then
                                      Some (c\<lparr>time := t, date := d\<lparr>month := 1, year := year d + 1\<rparr>\<rparr>)
                                    else Some (c\<lparr>time := t, date := d\<rparr>)
                               else Some (c\<lparr>time := t, date := d\<rparr>))
                     else Some (c\<lparr>time := t, date := d\<rparr>)
                else Some (c\<lparr>time := t, date := d\<rparr>)
           else Some (c\<lparr>time := t, date := d\<rparr>))"

text \<open>A time and date are valid when every field is in its calendar range.\<close>

definition valid_clock :: "clock_t \<Rightarrow> bool" where
  "valid_clock c \<longleftrightarrow>
     hour (time c) < 24 \<and> minute (time c) < 60 \<and> second (time c) < 60 \<and>
     2000 \<le> year (date c) \<and> year (date c) \<le> 2099 \<and>
     1 \<le> month (date c) \<and> month (date c) \<le> 12 \<and>
     1 \<le> day (date c) \<and>
     (case days_in_month (month (date c)) (year (date c)) of
        None \<Rightarrow> False | Some dim \<Rightarrow> day (date c) \<le> dim)"

section \<open>Event queue (event.c)\<close>

text \<open>The enumeration \<^verbatim>\<open>event_id\<close> of event.h. The code does arithmetic on its values
  (\<^verbatim>\<open>event + BUTTON0_PRESSED\<close>), so an event kind is its number.\<close>

type_synonym event_id = nat

definition NO_EVENT :: event_id where "NO_EVENT = 0"
definition BUTTON0_PRESSED :: event_id where "BUTTON0_PRESSED = 1"
definition BUTTON0_RELEASED :: event_id where "BUTTON0_RELEASED = 2"
definition BUTTON0_SHORT :: event_id where "BUTTON0_SHORT = 3"
definition BUTTON0_LONG :: event_id where "BUTTON0_LONG = 4"
definition LAST_BUTTON_EVENT :: event_id where "LAST_BUTTON_EVENT = 33"
definition BUTTON_CHORD :: event_id where "BUTTON_CHORD = 34"
definition RIGHT_ROTARY_MOVED :: event_id where "RIGHT_ROTARY_MOVED = 35"
definition LEFT_ROTARY_MOVED :: event_id where "LEFT_ROTARY_MOVED = 36"
definition TIMER_EXPIRED :: event_id where "TIMER_EXPIRED = 37"
definition ONE_SECOND_ELAPSED :: event_id where "ONE_SECOND_ELAPSED = 38"

definition EVENT_QUEUE_SIZE :: nat where "EVENT_QUEUE_SIZE = 16"

record event_t =
  event :: event_id
  data :: uint8_t

text \<open>The module variables \<^verbatim>\<open>event_queue_head\<close>, \<^verbatim>\<open>event_queue_tail\<close> and
  \<^verbatim>\<open>event_queue[EVENT_QUEUE_SIZE]\<close>.\<close>

record event_queue_t =
  event_queue_head :: uint8_t
  event_queue_tail :: uint8_t
  event_queue :: "event_t list"

text \<open>The state at reset: static storage is zeroed, so every slot is
  \<^verbatim>\<open>{NO_EVENT, 0}\<close> and both indices are 0.\<close>

definition event_queue_reset :: event_queue_t where
  "event_queue_reset =
     \<lparr>event_queue_head = 0, event_queue_tail = 0,
      event_queue = replicate EVENT_QUEUE_SIZE \<lparr>event = NO_EVENT, data = 0\<rparr>\<rparr>"

definition clear_events :: "event_queue_t \<Rightarrow> event_queue_t" where
  "clear_events q = q\<lparr>event_queue_head := 0, event_queue_tail := 0\<rparr>"

text \<open>\<^verbatim>\<open>add_event(event, data)\<close>. A store to \<^verbatim>\<open>event_queue[event_queue_head]\<close> outside
  the sixteen slots is a memory error: \<open>None\<close>.\<close>

definition add_event :: "event_id \<Rightarrow> uint8_t \<Rightarrow> event_queue_t \<Rightarrow> event_queue_t option" where
  "add_event ev d q =
     (if unat (event_queue_head q) < length (event_queue q) then
        (let q = q\<lparr>event_queue :=
                     (event_queue q)[unat (event_queue_head q) := \<lparr>event = ev, data = d\<rparr>]\<rparr>;
             q = q\<lparr>event_queue_head := event_queue_head q + 1\<rparr>;
             q = (if unat (event_queue_head q) \<ge> EVENT_QUEUE_SIZE
                  then q\<lparr>event_queue_head := 0\<rparr> else q);
             q = (if event_queue_head q = event_queue_tail q
                  then q\<lparr>event_queue_tail := event_queue_tail q + 1\<rparr> else q)
         in Some q)
      else None)"

text \<open>The effect of \<^verbatim>\<open>scan_for_events()\<close> on the queue: the events found by the scan of
  the buttons, encoders and timers (its hardware inputs, here the list \<open>found\<close>) are
  queued in order by \<^verbatim>\<open>add_event\<close>.\<close>

fun scan_for_events :: "(event_id \<times> uint8_t) list \<Rightarrow> event_queue_t \<Rightarrow> event_queue_t option" where
  "scan_for_events [] q = Some q"
| "scan_for_events ((ev, d) # found) q =
     (case add_event ev d q of None \<Rightarrow> None | Some q' \<Rightarrow> scan_for_events found q')"

text \<open>\<^verbatim>\<open>get_next_event(mask)\<close>: the scan, then the atomic block. A load from
  \<^verbatim>\<open>event_queue[event_queue_tail]\<close> outside the sixteen slots is a memory error: \<open>None\<close>.\<close>

definition get_next_event :: "(event_id \<times> uint8_t) list \<Rightarrow> event_queue_t \<Rightarrow> (event_t \<times> event_queue_t) option" where
  "get_next_event found q0 =
     (case scan_for_events found q0 of
        None \<Rightarrow> None
      | Some q \<Rightarrow>
          if event_queue_head q \<noteq> event_queue_tail q then
            (if unat (event_queue_tail q) < length (event_queue q) then
               (let e = event_queue q ! unat (event_queue_tail q);
                    q = q\<lparr>event_queue_tail := event_queue_tail q + 1\<rparr>;
                    q = (if unat (event_queue_tail q) \<ge> EVENT_QUEUE_SIZE
                         then q\<lparr>event_queue_tail := 0\<rparr> else q)
                in Some (e, q))
             else None)
          else Some (\<lparr>event = NO_EVENT, data = 0\<rparr>, q))"

text \<open>\<open>n\<close> calls of \<^verbatim>\<open>get_next_event\<close> in a row while the scan finds nothing.\<close>

fun get_events :: "nat \<Rightarrow> event_queue_t \<Rightarrow> event_queue_t option" where
  "get_events 0 q = Some q"
| "get_events (Suc n) q =
     (case get_next_event [] q of None \<Rightarrow> None | Some (e, q') \<Rightarrow> get_events n q')"

section \<open>Nixie display driver (nixie.c, nixie.h)\<close>

abbreviation (input) NIXIE_SEGMENTS :: nat where "NIXIE_SEGMENTS \<equiv> 64"
abbreviation (input) NIXIE_SEGMENTS_PER_DIGIT :: nat where "NIXIE_SEGMENTS_PER_DIGIT \<equiv> 10"
abbreviation (input) NIXIE_DISPLAY_WIDTH :: uint8_t where "NIXIE_DISPLAY_WIDTH \<equiv> 6"
abbreviation (input) MAX_NIXIE_INTENSITY :: uint8_t where "MAX_NIXIE_INTENSITY \<equiv> 9"
abbreviation (input) NOMINAL_NIXIE_INTENSITY :: uint8_t where "NOMINAL_NIXIE_INTENSITY \<equiv> 9"
abbreviation (input) MAX_NIXIE_CROSSFADE_RATE :: uint8_t where "MAX_NIXIE_CROSSFADE_RATE \<equiv> 3"
abbreviation (input) NIXIE_LEFT_LAMP :: uint8_t where "NIXIE_LEFT_LAMP \<equiv> 6"
abbreviation (input) NIXIE_RIGHT_LAMP :: uint8_t where "NIXIE_RIGHT_LAMP \<equiv> 7"
abbreviation (input) NIXIE_AUX_A :: uint8_t where "NIXIE_AUX_A \<equiv> 8"
abbreviation (input) NIXIE_AUX_B :: uint8_t where "NIXIE_AUX_B \<equiv> 9"

text \<open>A character constant of the source as a byte.\<close>

abbreviation CH :: "char \<Rightarrow> uint8_t" where "CH c \<equiv> of_char c"

subsection \<open>Virtual display streams\<close>

text \<open>The union \<^verbatim>\<open>control_t\<close>: one flag per named bit; \<^verbatim>\<open>control.all = 0\<close> clears them all.\<close>

record control_t =
  no_cursor_inc :: bool
  single_no_inc :: bool
  overlay :: bool
  single_overlay :: bool
  no_cursor_wrap :: bool

definition control_all_0 :: control_t where
  "control_all_0 = \<lparr>no_cursor_inc = False, single_no_inc = False, overlay = False,
                     single_overlay = False, no_cursor_wrap = False\<rparr>"

datatype state_t = NORMAL_OUTPUT | SET_INTENSITY | SET_CURSOR_POS

text \<open>\<^verbatim>\<open>nixie_stream_t\<close>. The field \<open>segdata\<close> holds the contents of the segment buffer
  the stream points to, \<^verbatim>\<open>NIXIE_SEGMENTS\<close> bytes.\<close>

record nixie_stream_t =
  segdata :: "uint8_t list"
  cursor :: uint8_t
  intensity :: uint8_t
  state :: state_t
  control :: control_t

definition nixie_digit_offset :: "nat list" where
  "nixie_digit_offset = [0, 10, 21, 32, 43, 53, 20, 42, 31, 63]"

text \<open>The loop shared by \<^verbatim>\<open>clear_nixie_display\<close> and \<^verbatim>\<open>clear_nixie_digit\<close>: \<open>count\<close>
  bytes are zeroed from offset \<open>i\<close> on.\<close>

fun clear_segments :: "nat \<Rightarrow> nat \<Rightarrow> uint8_t list \<Rightarrow> uint8_t list" where
  "clear_segments 0 i sd = sd"
| "clear_segments (Suc count) i sd = clear_segments count (Suc i) (sd[i := 0])"

definition clear_nixie_display :: "uint8_t list \<Rightarrow> uint8_t list" where
  "clear_nixie_display sd = clear_segments NIXIE_SEGMENTS 0 sd"

definition nixie_control_init :: "nixie_stream_t \<Rightarrow> nixie_stream_t" where
  "nixie_control_init p =
     p\<lparr>segdata := clear_nixie_display (segdata p), cursor := 0,
       intensity := MAX_NIXIE_INTENSITY, control := control_all_0, state := NORMAL_OUTPUT\<rparr>"

text \<open>\<^verbatim>\<open>nixie_stream_init\<close> links the stream to the caller's buffer \<open>sd\<close> and initialises
  it; the result does not depend on what the control structure held before.\<close>

definition nixie_stream_init :: "uint8_t list \<Rightarrow> nixie_stream_t" where
  "nixie_stream_init sd =
     nixie_control_init \<lparr>segdata = sd, cursor = 0, intensity = 0, state = NORMAL_OUTPUT,
                         control = control_all_0\<rparr>"

definition clear_nixie_digit :: "uint8_t list \<Rightarrow> uint8_t \<Rightarrow> uint8_t list" where
  "clear_nixie_digit sd digit =
     (let count = (if digit < NIXIE_DISPLAY_WIDTH then NIXIE_SEGMENTS_PER_DIGIT else 1)
      in clear_segments count (nixie_digit_offset ! unat digit) sd)"

definition set_nixie_segment :: "uint8_t list \<Rightarrow> uint8_t \<Rightarrow> uint8_t \<Rightarrow> uint8_t \<Rightarrow> uint8_t list" where
  "set_nixie_segment sd digit segment v =
     sd[nixie_digit_offset ! unat digit + unat segment := v]"

definition inc_cursor :: "nixie_stream_t \<Rightarrow> bool \<Rightarrow> nixie_stream_t" where
  "inc_cursor p char_mode =
     (if char_mode \<and> (no_cursor_inc (control p) \<or> single_no_inc (control p)) then
        p\<lparr>control := (control p)\<lparr>single_no_inc := False\<rparr>\<rparr>
      else
        let p = p\<lparr>cursor := cursor p + 1\<rparr>
        in if no_cursor_wrap (control p) then
             (if cursor p > NIXIE_DISPLAY_WIDTH then p\<lparr>cursor := NIXIE_DISPLAY_WIDTH\<rparr> else p)
           else if cursor p \<ge> NIXIE_DISPLAY_WIDTH then p\<lparr>cursor := 0\<rparr>
           else p)"

definition dec_cursor :: "nixie_stream_t \<Rightarrow> nixie_stream_t" where
  "dec_cursor p =
     (let p = p\<lparr>cursor := cursor p - 1\<rparr>
      in if cursor p AND 0x80 \<noteq> 0 then
           (if no_cursor_wrap (control p) then p\<lparr>cursor := 0\<rparr>
            else p\<lparr>cursor := NIXIE_DISPLAY_WIDTH - 1\<rparr>)
         else p)"

text \<open>The parameter \<^verbatim>\<open>ch\<close> of \<^verbatim>\<open>nixie_out\<close> has the plain type \<^verbatim>\<open>char\<close>, whose signedness
  the C language leaves to the compiler: avr-gcc makes it signed unless it is run with
  \<^verbatim>\<open>-funsigned-char\<close>, and the sources carry no build options. The model takes the
  signedness as the parameter \<open>schar\<close> (\<open>True\<close>: signed) and keeps \<^verbatim>\<open>ch\<close> as a byte;
  \<open>char_int\<close> is the value a comparison sees after integer promotion.\<close>

definition char_int :: "bool \<Rightarrow> uint8_t \<Rightarrow> int" where
  "char_int schar ch = (if schar then sint ch else uint ch)"

text \<open>The displayable-character branch of \<^verbatim>\<open>nixie_out\<close>, entered with the character type
  (1: digit, 2: letter, 3: space) and the adjusted \<^verbatim>\<open>ch\<close>.\<close>

definition nixie_out_displayable :: "nat \<Rightarrow> uint8_t \<Rightarrow> nixie_stream_t \<Rightarrow> nixie_stream_t" where
  "nixie_out_displayable char_type ch p =
     (let p =
        (if cursor p < NIXIE_DISPLAY_WIDTH then
           let sd = (if \<not> (overlay (control p) \<or> single_overlay (control p))
                     then clear_nixie_digit (segdata p) (cursor p) else segdata p);
               sd = (if char_type = 2 then set_nixie_segment sd (cursor p) 0 (intensity p) else sd);
               ch = (if char_type = 2 then ch + 1 else ch);
               sd = (if char_type \<noteq> 3 then set_nixie_segment sd (cursor p) ch (intensity p) else sd)
           in p\<lparr>segdata := sd\<rparr>
         else p);
          p = inc_cursor p True
      in p\<lparr>control := (control p)\<lparr>single_overlay := False\<rparr>\<rparr>)"

text \<open>The \<^verbatim>\<open>switch\<close> of \<^verbatim>\<open>nixie_out\<close> over the control characters.\<close>

definition nixie_out_control :: "uint8_t \<Rightarrow> nixie_stream_t \<Rightarrow> nixie_stream_t" where
  "nixie_out_control ch p =
     (if ch = CH CHR ''<'' then p\<lparr>segdata := set_nixie_segment (segdata p) NIXIE_LEFT_LAMP 0 (intensity p)\<rparr>
      else if ch = CH CHR ''>'' then p\<lparr>segdata := set_nixie_segment (segdata p) NIXIE_RIGHT_LAMP 0 (intensity p)\<rparr>
      else if ch = CH CHR ''('' then p\<lparr>segdata := set_nixie_segment (segdata p) NIXIE_LEFT_LAMP 0 0\<rparr>
      else if ch = CH CHR '')'' then p\<lparr>segdata := set_nixie_segment (segdata p) NIXIE_RIGHT_LAMP 0 0\<rparr>
      else if ch = CH CHR 0x60 then
        p\<lparr>segdata := set_nixie_segment (set_nixie_segment (segdata p) NIXIE_LEFT_LAMP 0 0)
                         NIXIE_RIGHT_LAMP 0 0\<rparr>
      else if ch = CH CHR ''.'' then
        (if cursor p = 2 \<or> cursor p = 3 then
           p\<lparr>segdata := set_nixie_segment (segdata p) NIXIE_LEFT_LAMP 0 (intensity p)\<rparr>
         else if cursor p > 3 then
           p\<lparr>segdata := set_nixie_segment (segdata p) NIXIE_RIGHT_LAMP 0 (intensity p)\<rparr>
         else p)
      else if ch = CH CHR '','' then
        (if cursor p = 0 \<or> cursor p = 1 then
           p\<lparr>segdata := set_nixie_segment (segdata p) NIXIE_LEFT_LAMP 0 (intensity p)\<rparr>
         else if cursor p < 4 then
           p\<lparr>segdata := set_nixie_segment (segdata p) NIXIE_RIGHT_LAMP 0 (intensity p)\<rparr>
         else p)
      else if ch = CH CHR ''X'' then p\<lparr>segdata := set_nixie_segment (segdata p) NIXIE_AUX_A 0 (intensity p)\<rparr>
      else if ch = CH CHR ''x'' then p\<lparr>segdata := set_nixie_segment (segdata p) NIXIE_AUX_A 0 0\<rparr>
      else if ch = CH CHR ''Y'' then p\<lparr>segdata := set_nixie_segment (segdata p) NIXIE_AUX_B 0 (intensity p)\<rparr>
      else if ch = CH CHR ''y'' then p\<lparr>segdata := set_nixie_segment (segdata p) NIXIE_AUX_B 0 0\<rparr>
      else if ch = CH CHR ''['' then (if intensity p \<noteq> 0 then p\<lparr>intensity := intensity p - 1\<rparr> else p)
      else if ch = CH CHR '']'' then
        (if intensity p < MAX_NIXIE_INTENSITY then p\<lparr>intensity := intensity p + 1\<rparr> else p)
      else if ch = CH CHR ''*'' then p\<lparr>state := SET_INTENSITY\<rparr>
      else if ch = CH CHR ''~'' then p\<lparr>intensity := NOMINAL_NIXIE_INTENSITY\<rparr>
      else if ch = CH CHR ''$'' then p\<lparr>control := (control p)\<lparr>no_cursor_inc := False\<rparr>\<rparr>
      else if ch = CH CHR ''#'' then p\<lparr>control := (control p)\<lparr>no_cursor_inc := True\<rparr>\<rparr>
      else if ch = CH CHR ''!'' then p\<lparr>control := (control p)\<lparr>single_no_inc := True\<rparr>\<rparr>
      else if ch = CH CHR ''&'' then p\<lparr>control := (control p)\<lparr>overlay := False\<rparr>\<rparr>
      else if ch = CH CHR ''|'' then p\<lparr>control := (control p)\<lparr>overlay := True\<rparr>\<rparr>
      else if ch = CH CHR ''_'' then p\<lparr>control := (control p)\<lparr>single_overlay := True\<rparr>\<rparr>
      else if ch = CH CHR ''^'' then
        (let p = dec_cursor p in p\<lparr>control := (control p)\<lparr>single_overlay := True\<rparr>\<rparr>)
      else if ch = CH CHR ''@'' then p\<lparr>state := SET_CURSOR_POS\<rparr>
      else if ch = CH CHR ''{'' then p\<lparr>control := (control p)\<lparr>no_cursor_wrap := True\<rparr>\<rparr>
      else if ch = CH CHR ''}'' then p\<lparr>control := (control p)\<lparr>no_cursor_wrap := False\<rparr>\<rparr>
      else if ch = CH (CHR 0x0C) then p\<lparr>segdata := clear_nixie_display (segdata p), cursor := 0\<rparr>
      else if ch = CH (CHR 0x0D) then p\<lparr>cursor := 0\<rparr>
      else if ch = CH (CHR 0x0A) then p\<lparr>segdata := clear_nixie_display (segdata p)\<rparr>
      else if ch = CH (CHR 0x08) then dec_cursor p
      else if ch = CH (CHR 0x09) then inc_cursor p False
      else if ch = CH (CHR 0x0B) then
        p\<lparr>intensity := MAX_NIXIE_INTENSITY, cursor := 0, control := control_all_0\<rparr>
      else p)"

text \<open>\<^verbatim>\<open>nixie_out(ch, stream)\<close>, on the stream's control structure.\<close>

definition nixie_out :: "bool \<Rightarrow> uint8_t \<Rightarrow> nixie_stream_t \<Rightarrow> nixie_stream_t" where
  "nixie_out schar ch p =
     (if state p \<noteq> NORMAL_OUTPUT then
        (let ch = ch - CH CHR ''0'';
             p = (if state p = SET_INTENSITY then
                    (if char_int schar ch \<le> uint MAX_NIXIE_INTENSITY then p\<lparr>intensity := ch\<rparr> else p)
                  else if state p = SET_CURSOR_POS then
                    (if char_int schar ch \<le> uint NIXIE_DISPLAY_WIDTH then p\<lparr>cursor := ch\<rparr> else p)
                  else p)
         in p\<lparr>state := NORMAL_OUTPUT\<rparr>)
      else if char_int schar ch \<ge> of_char CHR ''0'' \<and> char_int schar ch \<le> of_char CHR ''9'' then
        nixie_out_displayable 1 (ch - CH CHR ''0'') p
      else if char_int schar ch \<ge> of_char CHR ''A'' \<and> char_int schar ch \<le> of_char CHR ''I'' then
        nixie_out_displayable 2 (ch - CH CHR ''A'') p
      else if char_int schar ch \<ge> of_char CHR ''a'' \<and> char_int schar ch \<le> of_char CHR ''i'' then
        nixie_out_displayable 2 (ch - CH CHR ''a'') p
      else if ch = CH CHR '' '' then nixie_out_displayable 3 ch p
      else nixie_out_control ch p)"

text \<open>A sequence of bytes written to a stream, one \<^verbatim>\<open>nixie_out\<close> call per byte.\<close>

fun nixie_write :: "bool \<Rightarrow> uint8_t list \<Rightarrow> nixie_stream_t \<Rightarrow> nixie_stream_t" where
  "nixie_write schar [] p = p"
| "nixie_write schar (ch # chs) p = nixie_write schar chs (nixie_out schar ch p)"

text \<open>The invariant of the specification: the cursor is at most \<^verbatim>\<open>NIXIE_DISPLAY_WIDTH\<close>,
  the output intensity and every byte of the 64-byte segment buffer at most
  \<^verbatim>\<open>MAX_NIXIE_INTENSITY\<close>.\<close>

definition stream_ok :: "nixie_stream_t \<Rightarrow> bool" where
  "stream_ok p \<longleftrightarrow>
     cursor p \<le> NIXIE_DISPLAY_WIDTH \<and> intensity p \<le> MAX_NIXIE_INTENSITY \<and>
     length (segdata p) = NIXIE_SEGMENTS \<and> (\<forall>x \<in> set (segdata p). x \<le> MAX_NIXIE_INTENSITY)"

subsection \<open>Crossfade\<close>

text \<open>The union \<^verbatim>\<open>nixie_control_t\<close> of nixie.c (the module variable \<^verbatim>\<open>nixie_control\<close>): two
  two-bit fields and three flags.\<close>

record nixie_control_t =
  crossfade_rate :: "2 word"
  crossfade_count :: "2 word"
  one_cycle_done :: bool
  one_cycle_only :: bool
  refresh_enable :: bool

definition nixie_crossfade_rate :: "uint8_t \<Rightarrow> nixie_control_t \<Rightarrow> nixie_control_t" where
  "nixie_crossfade_rate rate c =
     c\<lparr>crossfade_rate :=
         ucast (if rate \<le> MAX_NIXIE_CROSSFADE_RATE then rate else MAX_NIXIE_CROSSFADE_RATE)\<rparr>"

text \<open>The busy wait \<^verbatim>\<open>while (! nixie_control.one_cycle_done) ;\<close>. While it spins, the tick
  interrupt runs \<^verbatim>\<open>nixie_display_refresh\<close>: with refresh enabled this completes the PWM
  cycle, sets \<^verbatim>\<open>one_cycle_done\<close> and, in one-cycle-only mode, clears \<^verbatim>\<open>refresh_enable\<close>.
  With refresh disabled and the flag clear nothing ever sets the flag and the wait does
  not end: \<open>None\<close>.\<close>

definition wait_one_cycle :: "nixie_control_t \<Rightarrow> nixie_control_t option" where
  "wait_one_cycle c =
     (if one_cycle_done c then Some c
      else if refresh_enable c then
        Some (c\<lparr>one_cycle_done := True,
                refresh_enable := (if one_cycle_only c then False else refresh_enable c)\<rparr>)
      else None)"

text \<open>The \<^verbatim>\<open>for\<close> loop of \<^verbatim>\<open>nixie_crossfade\<close> over the segments: \<open>k\<close> iterations are
  left, \<open>index\<close> is the offset both pointers have reached. It returns the active buffer
  and the 8-bit \<^verbatim>\<open>activity\<close> counter.\<close>

fun fade_segments :: "nat \<Rightarrow> nat \<Rightarrow> uint8_t list \<Rightarrow> uint8_t list \<Rightarrow> uint8_t \<Rightarrow> uint8_t list \<times> uint8_t" where
  "fade_segments 0 index p_to p_from activity = (p_from, activity)"
| "fade_segments (Suc k) index p_to p_from activity =
     (if p_to ! index \<noteq> 0 then
        (if p_from ! index < p_to ! index then
           fade_segments k (Suc index) p_to (p_from[index := p_from ! index + 1]) (activity + 1)
         else fade_segments k (Suc index) p_to p_from activity)
      else if p_from ! index \<noteq> 0 then
        fade_segments k (Suc index) p_to (p_from[index := p_from ! index - 1]) (activity + 1)
      else fade_segments k (Suc index) p_to p_from activity)"

text \<open>The \<^verbatim>\<open>do ... while (activity)\<close> loop of \<^verbatim>\<open>nixie_crossfade\<close>. \<open>p_to\<close> is the segment
  buffer of the target stream, \<open>p_from\<close> the active buffer (\<^verbatim>\<open>nixie_segment_ptr\<close>), \<open>n\<close>
  counts the completed waits. Both buffers hold \<^verbatim>\<open>NIXIE_SEGMENTS\<close> bytes; a shorter one
  would be read and written past its end (\<open>None\<close>). The \<^verbatim>\<open>continue\<close> of the throttled
  pass jumps to the loop test with \<^verbatim>\<open>activity = 1\<close>.\<close>

function crossfade_loop ::
  "uint8_t list \<Rightarrow> nixie_control_t \<Rightarrow> uint8_t list \<Rightarrow> nat
     \<Rightarrow> (nixie_control_t \<times> uint8_t list \<times> nat) option" where
  "crossfade_loop p_to c p_from n =
     (if length p_to < NIXIE_SEGMENTS \<or> length p_from < NIXIE_SEGMENTS then None
      else case wait_one_cycle c of
        None \<Rightarrow> None
      | Some c1 \<Rightarrow>
          if crossfade_count c1 < crossfade_rate c1 then
            crossfade_loop p_to
              (c1\<lparr>one_cycle_done := False, refresh_enable := True,
                  crossfade_count := crossfade_count c1 + 1\<rparr>) p_from (Suc n)
          else if snd (fade_segments NIXIE_SEGMENTS 0 p_to p_from 0) \<noteq> 0 then
            crossfade_loop p_to
              (c1\<lparr>one_cycle_done := False, refresh_enable := True, crossfade_count := 0\<rparr>)
              (fst (fade_segments NIXIE_SEGMENTS 0 p_to p_from 0)) (Suc n)
          else
            Some (c1\<lparr>one_cycle_done := False, refresh_enable := True, crossfade_count := 0\<rparr>,
                  fst (fade_segments NIXIE_SEGMENTS 0 p_to p_from 0), Suc n))"
  by pat_completeness auto

text \<open>\<^verbatim>\<open>nixie_crossfade(to_stream)\<close>: the result is the control flags, the active buffer
  and the number of waits for a PWM cycle, or \<open>None\<close> when the call does not return.\<close>

definition nixie_crossfade ::
  "uint8_t list \<Rightarrow> nixie_control_t \<Rightarrow> uint8_t list
     \<Rightarrow> (nixie_control_t \<times> uint8_t list \<times> nat) option" where
  "nixie_crossfade p_to c p_from =
     (case crossfade_loop p_to
             (c\<lparr>one_cycle_only := True, one_cycle_done := False, crossfade_count := 3\<rparr>)
             p_from 0 of
        None \<Rightarrow> None
      | Some (c', p_from', n) \<Rightarrow> Some (c'\<lparr>one_cycle_only := False\<rparr>, p_from', n))"

text \<open>One pass of the loop body on a single segment, and the distance of the active
  buffer from the state in which no pass changes it. They serve the termination proof
  and the statements about the loop.\<close>

definition fade_step :: "uint8_t \<Rightarrow> uint8_t \<Rightarrow> uint8_t" where
  "fade_step t f =
     (if t \<noteq> 0 then (if f < t then f + 1 else f) else if f \<noteq> 0 then f - 1 else f)"

definition fade_distance :: "uint8_t list \<Rightarrow> uint8_t list \<Rightarrow> nat" where
  "fade_distance p_to p_from =
     (\<Sum>i<NIXIE_SEGMENTS. if p_to ! i \<noteq> 0 then unat (p_to ! i) - unat (p_from ! i)
                           else unat (p_from ! i))"

text \<open>Where a crossfade leaves a segment: at the target if the target is above it, at 0
  if the target is 0, and where it is otherwise.\<close>

definition fade_end :: "uint8_t \<Rightarrow> uint8_t \<Rightarrow> uint8_t" where
  "fade_end t f = (if t \<noteq> 0 then (if f < t then t else f) else 0)"

section \<open>Music player (player.c, player.h)\<close>

type_synonym int8_t = "8 word"

abbreviation (input) OCTAVES :: int where "OCTAVES \<equiv> 10"
abbreviation (input) NOTES_PER_OCTAVE :: int where "NOTES_PER_OCTAVE \<equiv> 12"
abbreviation (input) NUM_BOOKMARKS :: nat where "NUM_BOOKMARKS \<equiv> 10"
abbreviation (input) DEFAULT_TEMPO :: uint16_t where "DEFAULT_TEMPO \<equiv> 120"
abbreviation (input) DEFAULT_BEAT :: uint8_t where "DEFAULT_BEAT \<equiv> 4"

text \<open>The character-class macros. Their argument is the character after integer
  promotion: \<open>sint\<close> of an \<^verbatim>\<open>int8_t\<close> variable, \<open>uint\<close> of a \<^verbatim>\<open>uint8_t\<close> one.\<close>

abbreviation (input) is_separator :: "int \<Rightarrow> bool" where "is_separator ch \<equiv> ch = of_char CHR '' '' \<or> ch = of_char CHR '':''"
abbreviation (input) is_digit :: "int \<Rightarrow> bool" where "is_digit ch \<equiv> ch \<ge> of_char CHR ''0'' \<and> ch \<le> of_char CHR ''9''"
abbreviation (input) is_note :: "int \<Rightarrow> bool" where "is_note ch \<equiv> ch \<ge> of_char CHR ''A'' \<and> ch \<le> of_char CHR ''G''"
abbreviation (input) is_rest :: "int \<Rightarrow> bool" where "is_rest ch \<equiv> ch = of_char CHR ''R'' \<or> ch = of_char CHR '',''"
abbreviation (input) is_repeat_note :: "int \<Rightarrow> bool" where "is_repeat_note ch \<equiv> ch = of_char CHR ''!''"
abbreviation (input) is_octave_mod :: "int \<Rightarrow> bool" where "is_octave_mod ch \<equiv> ch \<ge> of_char CHR ''0'' \<and> ch \<le> of_char CHR ''9''"
abbreviation (input) is_flat :: "int \<Rightarrow> bool" where "is_flat ch \<equiv> ch = of_char CHR ''-''"
abbreviation (input) is_natural :: "int \<Rightarrow> bool" where "is_natural ch \<equiv> ch = of_char CHR ''N'' \<or> ch = of_char CHR ''=''"
abbreviation (input) is_sharp :: "int \<Rightarrow> bool" where "is_sharp ch \<equiv> ch = of_char CHR ''+'' \<or> ch = of_char CHR ''#''"
abbreviation (input) is_dotted :: "int \<Rightarrow> bool" where "is_dotted ch \<equiv> ch = of_char CHR ''.''"
abbreviation (input) is_triplet :: "int \<Rightarrow> bool" where "is_triplet ch \<equiv> ch = of_char CHR ''/''"
abbreviation (input) is_tied :: "int \<Rightarrow> bool" where "is_tied ch \<equiv> ch = of_char CHR ''|'' \<or> ch = of_char CHR '',''"
abbreviation (input) is_staccato :: "int \<Rightarrow> bool" where "is_staccato ch \<equiv> ch = of_char CHR ''^''"
abbreviation (input) is_whole :: "int \<Rightarrow> bool" where "is_whole ch \<equiv> ch = of_char CHR ''W''"
abbreviation (input) is_half :: "int \<Rightarrow> bool" where "is_half ch \<equiv> ch = of_char CHR ''H''"
abbreviation (input) is_quarter :: "int \<Rightarrow> bool" where "is_quarter ch \<equiv> ch = of_char CHR ''Q''"
abbreviation (input) is_8th :: "int \<Rightarrow> bool" where "is_8th ch \<equiv> ch = of_char CHR ''I''"
abbreviation (input) is_16th :: "int \<Rightarrow> bool" where "is_16th ch \<equiv> ch = of_char CHR ''S''"
abbreviation (input) is_32nd :: "int \<Rightarrow> bool" where "is_32nd ch \<equiv> ch = of_char CHR ''Y''"
abbreviation (input) is_octave_up :: "int \<Rightarrow> bool" where "is_octave_up ch \<equiv> ch = of_char CHR ''>''"
abbreviation (input) is_octave_down :: "int \<Rightarrow> bool" where "is_octave_down ch \<equiv> ch = of_char CHR ''<''"
abbreviation (input) is_octave_cmd :: "int \<Rightarrow> bool" where "is_octave_cmd ch \<equiv> ch = of_char CHR ''O''"
abbreviation (input) is_ratio_cmd :: "int \<Rightarrow> bool" where "is_ratio_cmd ch \<equiv> ch = of_char CHR ''M''"
abbreviation (input) is_volume_cmd :: "int \<Rightarrow> bool" where "is_volume_cmd ch \<equiv> ch = of_char CHR ''V''"
abbreviation (input) is_tempo_cmd :: "int \<Rightarrow> bool" where "is_tempo_cmd ch \<equiv> ch = of_char CHR ''T''"
abbreviation (input) is_transpose_cmd :: "int \<Rightarrow> bool" where "is_transpose_cmd ch \<equiv> ch = of_char CHR ''P''"
abbreviation (input) is_key_cmd :: "int \<Rightarrow> bool" where "is_key_cmd ch \<equiv> ch = of_char CHR ''K''"
abbreviation (input) is_bookmark :: "int \<Rightarrow> bool" where "is_bookmark ch \<equiv> ch = of_char CHR ''[''"
abbreviation (input) is_goto_mark :: "int \<Rightarrow> bool" where "is_goto_mark ch \<equiv> ch = of_char CHR '']''"
abbreviation (input) is_reset_cmd :: "int \<Rightarrow> bool" where "is_reset_cmd ch \<equiv> ch = of_char CHR ''*''"

abbreviation (input) MOD_DOTTED :: uint8_t where "MOD_DOTTED \<equiv> 0x01"
abbreviation (input) MOD_TRIPLET :: uint8_t where "MOD_TRIPLET \<equiv> 0x02"
abbreviation (input) MOD_TIED :: uint8_t where "MOD_TIED \<equiv> 0x04"
abbreviation (input) MOD_STACCATO :: uint8_t where "MOD_STACCATO \<equiv> 0x08"

abbreviation (input) ACCIDENTAL_FLAT :: int8_t where "ACCIDENTAL_FLAT \<equiv> - 1"
abbreviation (input) ACCIDENTAL_NATURAL :: int8_t where "ACCIDENTAL_NATURAL \<equiv> 0"
abbreviation (input) ACCIDENTAL_SHARP :: int8_t where "ACCIDENTAL_SHARP \<equiv> 1"

abbreviation (input) NOTE_WHOLE :: uint8_t where "NOTE_WHOLE \<equiv> 1"
abbreviation (input) NOTE_HALF :: uint8_t where "NOTE_HALF \<equiv> 2"
abbreviation (input) NOTE_QUARTER :: uint8_t where "NOTE_QUARTER \<equiv> 4"
abbreviation (input) NOTE_8TH :: uint8_t where "NOTE_8TH \<equiv> 8"
abbreviation (input) NOTE_16TH :: uint8_t where "NOTE_16TH \<equiv> 16"
abbreviation (input) NOTE_32ND :: uint8_t where "NOTE_32ND \<equiv> 32"

abbreviation (input) PLAYER_STOP :: uint8_t where "PLAYER_STOP \<equiv> 0"
abbreviation (input) PLAYER_RUN :: uint8_t where "PLAYER_RUN \<equiv> 1"
abbreviation (input) PLAYER_INIT :: uint8_t where "PLAYER_INIT \<equiv> 2"

abbreviation (input) PRESCALE_STOP :: uint8_t where "PRESCALE_STOP \<equiv> 0"
abbreviation (input) PRESCALE_1 :: uint8_t where "PRESCALE_1 \<equiv> 1"
abbreviation (input) PRESCALE_8 :: uint8_t where "PRESCALE_8 \<equiv> 2"

abbreviation (input) NOTE_IS_REST :: int where "NOTE_IS_REST \<equiv> 0xFF"

datatype player_state_t =
    STATE_RESET
  | STATE_GET_NOTE
  | STATE_GET_MODIFIER
  | STATE_START_NOTE
  | STATE_WAIT_NOTE
  | STATE_START_REST
  | STATE_WAIT_REST
  | STATE_GET_DIGIT
  | STATE_GET_NUMBER
  | STATE_GET_NUMBER_2
  | STATE_SET_OCTAVE
  | STATE_SET_NOTE_RATIO
  | STATE_SET_VOLUME
  | STATE_SET_TRANSPOSITION
  | STATE_SET_KEY
  | STATE_SET_KEY_2
  | STATE_SET_TEMPO
  | STATE_SET_TEMPO_2
  | STATE_SET_BOOKMARK
  | STATE_SET_BOOKMARK_2
  | STATE_GOTO_BOOKMARK
  | STATE_STOP

datatype player_space_t = PLAYER_MEM_RAM | PLAYER_MEM_PGM | PLAYER_MEM_EEPROM | PLAYER_MEM_UNKNOWN

text \<open>\<^verbatim>\<open>bookmark_t\<close>: a position in the score (an address, 0 for \<^verbatim>\<open>NULL\<close>) and the repeat
  counter.\<close>

record bookmark_t =
  position :: nat
  repeat :: uint8_t

text \<open>What the player does to the tone generator: the calls of \<^verbatim>\<open>beep_period\<close>,
  \<^verbatim>\<open>beep_mute\<close> and \<^verbatim>\<open>beep_gain\<close> with their arguments, in order.\<close>

datatype tone_cmd = Beep_period uint16_t uint8_t | Beep_mute uint8_t | Beep_gain uint8_t

text \<open>The state of the player: the module variables of player.c, the static variables of
  \<^verbatim>\<open>player_service\<close> (\<open>player_state\<close> is its \<^verbatim>\<open>state\<close>, \<open>note_nr\<close> its \<^verbatim>\<open>note\<close>), its locals
  \<^verbatim>\<open>ch\<close>, \<^verbatim>\<open>digit\<close> and \<^verbatim>\<open>number\<close>, which live for one call, and the trace of tone generator
  calls.\<close>

record player_t =
  player_timer :: uint16_t
  player_ptr :: nat
  player_mem_space :: player_space_t
  player_enable :: uint8_t
  bookmark :: "bookmark_t list"
  player_state :: player_state_t
  next_state :: player_state_t
  note_nr :: int8_t
  octave :: int8_t
  accidental :: int8_t
  transposition :: int8_t
  note_size :: uint8_t
  size_modifier :: uint8_t
  note_rest_ratio :: uint8_t
  whole_note_period :: uint16_t
  note_period :: uint16_t
  rest_period :: uint16_t
  scale :: "int8_t list"
  loc_ch :: int8_t
  loc_digit :: int8_t
  loc_number :: uint16_t
  tone :: "tone_cmd list"

text \<open>The state after power-up: static storage is zeroed.\<close>

definition player_power_up :: player_t where
  "player_power_up =
     \<lparr>player_timer = 0, player_ptr = 0, player_mem_space = PLAYER_MEM_RAM, player_enable = 0,
      bookmark = replicate NUM_BOOKMARKS \<lparr>position = 0, repeat = 0\<rparr>,
      player_state = STATE_RESET, next_state = STATE_RESET, note_nr = 0, octave = 0,
      accidental = 0, transposition = 0, note_size = 0, size_modifier = 0, note_rest_ratio = 0,
      whole_note_period = 0, note_period = 0, rest_period = 0, scale = replicate 7 0,
      loc_ch = 0, loc_digit = 0, loc_number = 0, tone = []\<rparr>"

text \<open>The contents of the three memory spaces a score can lie in, by address.\<close>

type_synonym memory = "player_space_t \<Rightarrow> nat \<Rightarrow> uint8_t"

text \<open>The outcome of a piece of code that loops: it returns, it makes a memory access
  outside an array (or divides by zero), or the model's fuel runs out before it returns.\<close>

datatype 'a outcome = Done 'a | Fault | Out_of_fuel

text \<open>The table \<^verbatim>\<open>note_table[OCTAVES][NOTES_PER_OCTAVE]\<close>: the values \<^verbatim>\<open>NOTE_PERIOD(freq, prescale)\<close>
  \<open>= F_CPU / freq / prescale / 2 - 0.5\<close> truncated to \<^verbatim>\<open>uint16_t\<close>, for \<^verbatim>\<open>F_CPU = 16000000\<close>
  (portdef.h), each with its prescaler selection.\<close>

definition note_table :: "(uint16_t \<times> uint8_t) list list" where
  "note_table = [
    [(61161, PRESCALE_8), (57736, PRESCALE_8), (54495, PRESCALE_8), (51439, PRESCALE_8), (48543, PRESCALE_8), (45829, PRESCALE_8), (43252, PRESCALE_8), (40815, PRESCALE_8), (38535, PRESCALE_8), (36363, PRESCALE_8), (34328, PRESCALE_8), (32403, PRESCALE_8)],
    [(30580, PRESCALE_8), (28859, PRESCALE_8), (27240, PRESCALE_8), (25713, PRESCALE_8), (24271, PRESCALE_8), (22909, PRESCALE_8), (21621, PRESCALE_8), (20407, PRESCALE_8), (19263, PRESCALE_8), (18181, PRESCALE_8), (17160, PRESCALE_8), (16199, PRESCALE_8)],
    [(15287, PRESCALE_8), (14429, PRESCALE_8), (13619, PRESCALE_8), (12856, PRESCALE_8), (12133, PRESCALE_8), (11452, PRESCALE_8), (10810, PRESCALE_8), (10203, PRESCALE_8), (9633, PRESCALE_8), (9090, PRESCALE_8), (8583, PRESCALE_8), (64776, PRESCALE_1)],
    [(61161, PRESCALE_1), (57719, PRESCALE_1), (54495, PRESCALE_1), (51413, PRESCALE_1), (48543, PRESCALE_1), (45818, PRESCALE_1), (43242, PRESCALE_1), (40815, PRESCALE_1), (38516, PRESCALE_1), (36363, PRESCALE_1), (34319, PRESCALE_1), (32401, PRESCALE_1)],
    [(30580, PRESCALE_1), (28859, PRESCALE_1), (27238, PRESCALE_1), (25714, PRESCALE_1), (24271, PRESCALE_1), (22909, PRESCALE_1), (21621, PRESCALE_1), (20407, PRESCALE_1), (19262, PRESCALE_1), (18181, PRESCALE_1), (17159, PRESCALE_1), (16197, PRESCALE_1)],
    [(15287, PRESCALE_1), (14429, PRESCALE_1), (13621, PRESCALE_1), (12855, PRESCALE_1), (12133, PRESCALE_1), (11452, PRESCALE_1), (10810, PRESCALE_1), (10203, PRESCALE_1), (9631, PRESCALE_1), (9090, PRESCALE_1), (8580, PRESCALE_1), (8098, PRESCALE_1)],
    [(7640, PRESCALE_1), (7213, PRESCALE_1), (6808, PRESCALE_1), (6425, PRESCALE_1), (6064, PRESCALE_1), (5726, PRESCALE_1), (5404, PRESCALE_1), (5101, PRESCALE_1), (4815, PRESCALE_1), (4544, PRESCALE_1), (4289, PRESCALE_1), (4048, PRESCALE_1)],
    [(3821, PRESCALE_1), (3607, PRESCALE_1), (3405, PRESCALE_1), (3213, PRESCALE_1), (3033, PRESCALE_1), (2862, PRESCALE_1), (2702, PRESCALE_1), (2550, PRESCALE_1), (2407, PRESCALE_1), (2272, PRESCALE_1), (2144, PRESCALE_1), (2024, PRESCALE_1)],
    [(1910, PRESCALE_1), (1803, PRESCALE_1), (1702, PRESCALE_1), (1606, PRESCALE_1), (1516, PRESCALE_1), (1431, PRESCALE_1), (1350, PRESCALE_1), (1275, PRESCALE_1), (1203, PRESCALE_1), (1135, PRESCALE_1), (1072, PRESCALE_1), (1011, PRESCALE_1)],
    [(955, PRESCALE_1), (901, PRESCALE_1), (850, PRESCALE_1), (803, PRESCALE_1), (757, PRESCALE_1), (715, PRESCALE_1), (675, PRESCALE_1), (637, PRESCALE_1), (601, PRESCALE_1), (567, PRESCALE_1), (535, PRESCALE_1), (505, PRESCALE_1)]]"

definition c_major_scale :: "int8_t list" where
  "c_major_scale = [9, 11, 0, 2, 4, 5, 7]"

definition beep_period :: "uint16_t \<Rightarrow> uint8_t \<Rightarrow> player_t \<Rightarrow> player_t" where
  "beep_period period prescale w = w\<lparr>tone := tone w @ [Beep_period period prescale]\<rparr>"

definition beep_mute :: "uint8_t \<Rightarrow> player_t \<Rightarrow> player_t" where
  "beep_mute mute w = w\<lparr>tone := tone w @ [Beep_mute mute]\<rparr>"

definition beep_gain :: "uint8_t \<Rightarrow> player_t \<Rightarrow> player_t" where
  "beep_gain gain w = w\<lparr>tone := tone w @ [Beep_gain gain]\<rparr>"

definition next_player_char :: "memory \<Rightarrow> player_t \<Rightarrow> uint8_t \<times> player_t" where
  "next_player_char mem w =
     (let data = (if player_mem_space w = PLAYER_MEM_RAM then mem PLAYER_MEM_RAM (player_ptr w)
                  else if player_mem_space w = PLAYER_MEM_PGM then mem PLAYER_MEM_PGM (player_ptr w)
                  else if player_mem_space w = PLAYER_MEM_EEPROM
                    then mem PLAYER_MEM_EEPROM (player_ptr w)
                  else 0);
          data = (if data \<ge> CH CHR ''a'' \<and> data \<le> CH CHR ''z'' then data AND NOT 0x20 else data)
      in (data, w\<lparr>player_ptr := player_ptr w + 1\<rparr>))"

definition player_stop :: "player_t \<Rightarrow> player_t" where
  "player_stop w =
     beep_period 0xFF PRESCALE_STOP (beep_mute 1 (w\<lparr>player_enable := PLAYER_STOP\<rparr>))"

subsection \<open>The bookmark pre-scan\<close>

text \<open>The loop \<^verbatim>\<open>while (is_digit(ch))\<close> of \<^verbatim>\<open>find_bookmark\<close> that reads the repeat count; it
  returns the character that ended it, the count and the state.\<close>

fun read_repeat_count ::
  "nat \<Rightarrow> memory \<Rightarrow> uint8_t \<Rightarrow> uint16_t \<Rightarrow> player_t \<Rightarrow> (uint8_t \<times> uint16_t \<times> player_t) option" where
  "read_repeat_count 0 mem c rep w = None"
| "read_repeat_count (Suc fuel) mem c rep w =
     (if is_digit (uint c) then
        (let c = c - CH CHR ''0'';
             rep = rep * 10 + ucast c;
             (c, w) = next_player_char mem w
         in read_repeat_count fuel mem c rep w)
      else Some (c, rep, w))"

text \<open>The \<^verbatim>\<open>do ... while (ch && !found_mark)\<close> loop of \<^verbatim>\<open>find_bookmark\<close>. \<^verbatim>\<open>found_mark\<close> is
  0 whenever the body is entered. The test of the bookmark number is \<^verbatim>\<open>is_digit(ch)\<close>,
  on the lead-in character, as in the source.\<close>

fun find_bookmark_loop :: "nat \<Rightarrow> memory \<Rightarrow> uint8_t \<Rightarrow> player_t \<Rightarrow> (bool \<times> player_t) outcome" where
  "find_bookmark_loop 0 mem search_mark w = Out_of_fuel"
| "find_bookmark_loop (Suc fuel) mem search_mark w =
     (let (c, w) = next_player_char mem w in
      if is_bookmark (uint c) then
        (let (mark, w) = next_player_char mem w in
         if \<not> is_separator (uint mark) \<and> \<not> is_digit (uint c) then
           find_bookmark_loop fuel mem search_mark w
         else
           let mark = (if is_separator (uint mark) then 0 else mark - CH CHR ''0'');
               (c, w) = next_player_char mem w;
               (c, w) = (if is_separator (uint c) then next_player_char mem w else (c, w))
           in case read_repeat_count fuel mem c 0 w of
                None \<Rightarrow> Out_of_fuel
              | Some (c, rep, w) \<Rightarrow>
                  let w = w\<lparr>player_ptr := player_ptr w - 1\<rparr>;
                      rep = (if rep > 0xFE then 0xFE else rep);
                      rep = (if rep = 0 then 0xFF else rep);
                      found_mark = (mark = search_mark)
                  in if (found_mark \<or> search_mark = 0xFF) \<and> \<not> unat mark < length (bookmark w)
                     then Fault
                     else
                       let w = (if found_mark \<or> search_mark = 0xFF then
                                  w\<lparr>bookmark := (bookmark w)
                                       [unat mark := \<lparr>position = player_ptr w, repeat = ucast rep\<rparr>]\<rparr>
                                else w)
                       in if c \<noteq> 0 \<and> \<not> found_mark
                          then find_bookmark_loop fuel mem search_mark w
                          else Done (found_mark, w))
      else if c \<noteq> 0 then find_bookmark_loop fuel mem search_mark w
      else Done (False, w))"

text \<open>\<^verbatim>\<open>find_bookmark(search_mark)\<close>: the returned pointer (0 for \<^verbatim>\<open>NULL\<close>) and the state,
  with \<^verbatim>\<open>player_ptr\<close> restored.\<close>

definition find_bookmark :: "nat \<Rightarrow> memory \<Rightarrow> uint8_t \<Rightarrow> player_t \<Rightarrow> (nat \<times> player_t) outcome" where
  "find_bookmark fuel mem search_mark w =
     (case find_bookmark_loop fuel mem search_mark w of
        Done (found_mark, w') \<Rightarrow>
          Done (if found_mark then player_ptr w' else 0, w'\<lparr>player_ptr := player_ptr w\<rparr>)
      | Fault \<Rightarrow> Fault
      | Out_of_fuel \<Rightarrow> Out_of_fuel)"

text \<open>\<^verbatim>\<open>player_start(str, mem_space)\<close>.\<close>

definition player_start :: "nat \<Rightarrow> memory \<Rightarrow> nat \<Rightarrow> player_space_t \<Rightarrow> player_t \<Rightarrow> player_t outcome" where
  "player_start fuel mem str mem_space w =
     (let w = player_stop w;
          w = w\<lparr>player_ptr := str, player_mem_space := mem_space\<rparr>;
          w = w\<lparr>bookmark := replicate NUM_BOOKMARKS \<lparr>position = 0, repeat = 0\<rparr>\<rparr>
      in case find_bookmark fuel mem 0xFF w of
           Done (r, w) \<Rightarrow> Done (w\<lparr>player_enable := PLAYER_INIT\<rparr>)
         | Fault \<Rightarrow> Fault
         | Out_of_fuel \<Rightarrow> Out_of_fuel)"

definition player_is_stopped :: "player_t \<Rightarrow> bool" where
  "player_is_stopped w \<longleftrightarrow> player_enable w = PLAYER_STOP"

subsection \<open>The player state machine\<close>

text \<open>One pass through the body of the \<^verbatim>\<open>do ... while (1)\<close> loop of \<^verbatim>\<open>player_service\<close> ends
  in \<^verbatim>\<open>continue\<close> or in \<^verbatim>\<open>break\<close>.\<close>

datatype 'a loop_step = Continue 'a | Break 'a | Fault_step

text \<open>The whole-note period \<^verbatim>\<open>(uint16_t) (PLAYER_TICKS_PER_SECOND * 60U * (uint32_t) note_size / number)\<close>.\<close>

definition whole_note_ticks :: "uint8_t \<Rightarrow> uint16_t \<Rightarrow> uint16_t" where
  "whole_note_ticks nsize bpm =
     ucast ((ucast (625 * 60 :: uint16_t) * ucast nsize :: 32 word) div ucast bpm)"

definition state_reset :: "player_t \<Rightarrow> player_t loop_step" where
  "state_reset w =
     (let w = w\<lparr>scale := c_major_scale, loc_digit := 7\<rparr>;
          w = w\<lparr>note_nr := 0, octave := 4, accidental := ACCIDENTAL_NATURAL, transposition := 0,
                note_size := 4, size_modifier := 0, note_rest_ratio := 7,
                whole_note_period := whole_note_ticks DEFAULT_BEAT DEFAULT_TEMPO,
                player_timer := 0\<rparr>;
          w = beep_period 0xFF PRESCALE_STOP w;
          w = beep_mute 0 w;
          w = beep_gain 5 w
      in Continue (w\<lparr>player_enable := PLAYER_RUN, player_state := STATE_GET_NOTE\<rparr>))"

text \<open>The end of the \<^verbatim>\<open>STATE_GET_NOTE\<close> branch, reached by every path that does not
  \<^verbatim>\<open>continue\<close> before: \<^verbatim>\<open>state = STATE_STOP; continue;\<close>.\<close>

definition get_note_stop :: "player_t \<Rightarrow> player_t loop_step" where
  "get_note_stop w = Continue (w\<lparr>player_state := STATE_STOP\<rparr>)"

text \<open>\<^verbatim>\<open>STATE_GET_NOTE\<close>. The branch for the transpose command sets \<^verbatim>\<open>state\<close> and
  \<^verbatim>\<open>next_state\<close> and has no \<^verbatim>\<open>continue\<close>: control leaves the \<^verbatim>\<open>else if\<close> chain and reaches
  its end.\<close>

definition state_get_note :: "memory \<Rightarrow> player_t \<Rightarrow> player_t loop_step" where
  "state_get_note mem w =
     (let (c, w) = next_player_char mem w;
          w = w\<lparr>loc_ch := c\<rparr>
      in if is_separator (sint c) then Continue w
         else if is_note (sint c) then
           (let c = c - CH CHR ''A'';
                w = w\<lparr>loc_ch := c\<rparr>
            in if 0 \<le> sint c \<and> nat (sint c) < length (scale w) then
                 Continue (w\<lparr>note_nr := scale w ! nat (sint c), accidental := ACCIDENTAL_NATURAL,
                             player_state := STATE_GET_MODIFIER, next_state := STATE_START_NOTE\<rparr>)
               else Fault_step)
         else if is_rest (sint c) then
           Continue (w\<lparr>note_nr := 0xFF, player_state := STATE_GET_MODIFIER,
                       next_state := STATE_START_NOTE\<rparr>)
         else if is_repeat_note (sint c) then Continue (w\<lparr>player_state := STATE_START_NOTE\<rparr>)
         else if is_octave_cmd (sint c) then
           Continue (w\<lparr>player_state := STATE_GET_DIGIT, next_state := STATE_SET_OCTAVE\<rparr>)
         else if is_octave_up (sint c) then
           Continue (if sint (octave w) < OCTAVES - 1 then w\<lparr>octave := octave w + 1\<rparr> else w)
         else if is_octave_down (sint c) then
           Continue (if sint (octave w) > 0 then w\<lparr>octave := octave w - 1\<rparr> else w)
         else if is_ratio_cmd (sint c) then
           Continue (w\<lparr>player_state := STATE_GET_DIGIT, next_state := STATE_SET_NOTE_RATIO\<rparr>)
         else if is_volume_cmd (sint c) then
           Continue (w\<lparr>player_state := STATE_GET_DIGIT, next_state := STATE_SET_VOLUME\<rparr>)
         else if is_transpose_cmd (sint c) then
           get_note_stop (w\<lparr>player_state := STATE_GET_NUMBER,
                            next_state := STATE_SET_TRANSPOSITION\<rparr>)
         else if is_key_cmd (sint c) then Continue (w\<lparr>player_state := STATE_SET_KEY\<rparr>)
         else if is_tempo_cmd (sint c) then
           (let w = w\<lparr>note_size := DEFAULT_BEAT, size_modifier := 0\<rparr>;
                (c, w) = next_player_char mem w;
                w = w\<lparr>loc_ch := c\<rparr>
            in if is_separator (sint c) \<or> is_digit (sint c) then
                 Continue (w\<lparr>player_ptr := player_ptr w - 1, player_state := STATE_GET_NUMBER,
                             next_state := STATE_SET_TEMPO_2\<rparr>)
               else
                 Continue (w\<lparr>player_state := STATE_GET_MODIFIER, next_state := STATE_SET_TEMPO\<rparr>))
         else if is_bookmark (sint c) then
           Continue (w\<lparr>player_state := STATE_GET_DIGIT, next_state := STATE_SET_BOOKMARK\<rparr>)
         else if is_goto_mark (sint c) then
           Continue (w\<lparr>player_state := STATE_GET_DIGIT, next_state := STATE_GOTO_BOOKMARK\<rparr>)
         else if is_reset_cmd (sint c) then Continue (w\<lparr>player_state := STATE_RESET\<rparr>)
         else if c = 0 then get_note_stop (w\<lparr>player_ptr := player_ptr w - 1\<rparr>)
         else get_note_stop w)"

definition state_get_modifier :: "memory \<Rightarrow> player_t \<Rightarrow> player_t loop_step" where
  "state_get_modifier mem w =
     (let (c, w) = next_player_char mem w;
          w = w\<lparr>loc_ch := c\<rparr>
      in if is_separator (sint c) then Continue (w\<lparr>player_state := next_state w\<rparr>)
         else if is_octave_mod (sint c) then Continue (w\<lparr>octave := c - CH CHR ''0''\<rparr>)
         else if is_dotted (sint c) then Continue (w\<lparr>size_modifier := size_modifier w OR MOD_DOTTED\<rparr>)
         else if is_triplet (sint c) then Continue (w\<lparr>size_modifier := size_modifier w OR MOD_TRIPLET\<rparr>)
         else if is_tied (sint c) then Continue (w\<lparr>size_modifier := size_modifier w OR MOD_TIED\<rparr>)
         else if is_staccato (sint c) then
           Continue (w\<lparr>size_modifier := size_modifier w OR MOD_STACCATO\<rparr>)
         else if is_flat (sint c) then Continue (w\<lparr>accidental := ACCIDENTAL_FLAT\<rparr>)
         else if is_natural (sint c) then Continue (w\<lparr>accidental := ACCIDENTAL_NATURAL\<rparr>)
         else if is_sharp (sint c) then Continue (w\<lparr>accidental := ACCIDENTAL_SHARP\<rparr>)
         else if is_whole (sint c) then Continue (w\<lparr>note_size := NOTE_WHOLE, size_modifier := 0\<rparr>)
         else if is_half (sint c) then Continue (w\<lparr>note_size := NOTE_HALF, size_modifier := 0\<rparr>)
         else if is_quarter (sint c) then Continue (w\<lparr>note_size := NOTE_QUARTER, size_modifier := 0\<rparr>)
         else if is_8th (sint c) then Continue (w\<lparr>note_size := NOTE_8TH, size_modifier := 0\<rparr>)
         else if is_16th (sint c) then Continue (w\<lparr>note_size := NOTE_16TH, size_modifier := 0\<rparr>)
         else if is_32nd (sint c) then Continue (w\<lparr>note_size := NOTE_32ND, size_modifier := 0\<rparr>)
         else Continue (w\<lparr>player_ptr := player_ptr w - 1, player_state := next_state w\<rparr>))"

text \<open>\<^verbatim>\<open>STATE_START_NOTE\<close>. \<^verbatim>\<open>note\<close> is an \<^verbatim>\<open>int8_t\<close>, so the comparison with \<^verbatim>\<open>NOTE_IS_REST\<close>
  (0xFF) is between its signed value and 255. A division by a zero \<^verbatim>\<open>note_size\<close> and a
  \<^verbatim>\<open>note_table\<close> index outside the table are faults.\<close>

definition state_start_note :: "player_t \<Rightarrow> player_t loop_step" where
  "state_start_note w =
     (let w = w\<lparr>rest_period := whole_note_period w\<rparr>;
          w = (if size_modifier w AND MOD_DOTTED \<noteq> 0
               then w\<lparr>rest_period := rest_period w + drop_bit 1 (rest_period w)\<rparr> else w);
          w = (if size_modifier w AND MOD_TRIPLET \<noteq> 0
               then w\<lparr>rest_period := rest_period w div 3\<rparr> else w)
      in if note_size w = 0 then Fault_step
         else
           let w = w\<lparr>rest_period := rest_period w div ucast (note_size w)\<rparr>
           in if sint (note_nr w) = NOTE_IS_REST then Continue (w\<lparr>player_state := STATE_START_REST\<rparr>)
              else
                let w = w\<lparr>loc_digit := (if size_modifier w AND MOD_TIED \<noteq> 0 then 8
                                          else if size_modifier w AND MOD_STACCATO \<noteq> 0 then 2
                                          else note_rest_ratio w)\<rparr>;
                    w = w\<lparr>note_period := drop_bit 3 (rest_period w * scast (loc_digit w))\<rparr>;
                    w = w\<lparr>rest_period := rest_period w - note_period w\<rparr>;
                    w = w\<lparr>loc_digit := note_nr w + accidental w + transposition w\<rparr>;
                    w = w\<lparr>loc_ch := octave w\<rparr>;
                    w = (if sint (loc_digit w) < 0 then
                           w\<lparr>loc_digit := loc_digit w + 12, loc_ch := loc_ch w - 1\<rparr>
                         else if sint (loc_digit w) \<ge> NOTES_PER_OCTAVE then
                           w\<lparr>loc_digit := loc_digit w - 12, loc_ch := loc_ch w + 1\<rparr>
                         else w);
                    w = (if sint (loc_ch w) < 0 then w\<lparr>loc_ch := 0\<rparr>
                         else if sint (loc_ch w) \<ge> OCTAVES then w\<lparr>loc_ch := 9\<rparr>
                         else w)
                in if 0 \<le> sint (loc_digit w) \<and> sint (loc_digit w) < NOTES_PER_OCTAVE then
                     (let n = note_table ! nat (sint (loc_ch w)) ! nat (sint (loc_digit w));
                          w = w\<lparr>loc_number := fst n\<rparr>;
                          w = w\<lparr>loc_digit := snd n\<rparr>;
                          w = beep_period (loc_number w) (loc_digit w) w
                      in Continue (w\<lparr>player_state := STATE_WAIT_NOTE\<rparr>))
                   else Fault_step)"

definition state_wait_note :: "player_t \<Rightarrow> player_t loop_step" where
  "state_wait_note w =
     (if player_timer w < note_period w then Break w
      else
        let w = w\<lparr>player_timer := player_timer w - note_period w\<rparr>
        in if rest_period w \<noteq> 0 then Continue (w\<lparr>player_state := STATE_START_REST\<rparr>)
           else Continue (w\<lparr>player_state := STATE_GET_NOTE\<rparr>))"

definition state_start_rest :: "player_t \<Rightarrow> player_t loop_step" where
  "state_start_rest w =
     Continue ((beep_period 0xFF PRESCALE_STOP w)\<lparr>player_state := STATE_WAIT_REST\<rparr>)"

definition state_wait_rest :: "player_t \<Rightarrow> player_t loop_step" where
  "state_wait_rest w =
     (if player_timer w < rest_period w then Break w
      else Continue (w\<lparr>player_timer := player_timer w - rest_period w,
                       player_state := STATE_GET_NOTE\<rparr>))"

definition state_get_digit :: "memory \<Rightarrow> player_t \<Rightarrow> player_t loop_step" where
  "state_get_digit mem w =
     (let w = w\<lparr>player_state := next_state w\<rparr>;
          (c, w) = next_player_char mem w;
          w = w\<lparr>loc_digit := c\<rparr>
      in if is_separator (sint c) then Continue (w\<lparr>loc_digit := 0\<rparr>)
         else if is_digit (sint c) then Continue (w\<lparr>loc_digit := c - CH CHR ''0''\<rparr>)
         else Continue (w\<lparr>player_state := STATE_STOP\<rparr>))"

definition state_get_number :: "memory \<Rightarrow> player_t \<Rightarrow> player_t loop_step" where
  "state_get_number mem w =
     (let w = w\<lparr>loc_number := 0\<rparr>;
          (c, w) = next_player_char mem w;
          (c, w) = (if is_separator (sint c) then next_player_char mem w else (c, w))
      in Continue (w\<lparr>loc_ch := c, player_state := STATE_GET_NUMBER_2\<rparr>))"

text \<open>\<^verbatim>\<open>STATE_GET_NUMBER_2\<close>. Each iteration of its \<^verbatim>\<open>while (is_digit(ch))\<close> loop is one pass
  of the model that stays in this state: nothing else happens between two iterations.\<close>

definition state_get_number_2 :: "memory \<Rightarrow> player_t \<Rightarrow> player_t loop_step" where
  "state_get_number_2 mem w =
     (if is_digit (sint (loc_ch w)) then
        (let w = w\<lparr>loc_ch := loc_ch w - CH CHR ''0''\<rparr>;
             w = w\<lparr>loc_number := loc_number w * 10 + scast (loc_ch w)\<rparr>;
             (c, w) = next_player_char mem w
         in Continue (w\<lparr>loc_ch := c\<rparr>))
      else Continue (w\<lparr>player_ptr := player_ptr w - 1, player_state := next_state w\<rparr>))"

definition state_set_octave :: "player_t \<Rightarrow> player_t loop_step" where
  "state_set_octave w = Continue (w\<lparr>octave := loc_digit w, player_state := STATE_GET_NOTE\<rparr>)"

definition state_set_note_ratio :: "player_t \<Rightarrow> player_t loop_step" where
  "state_set_note_ratio w =
     (let w = (if sint (loc_digit w) > 8 then w\<lparr>loc_digit := 8\<rparr> else w)
      in Continue (w\<lparr>note_rest_ratio := loc_digit w, player_state := STATE_GET_NOTE\<rparr>))"

definition state_set_volume :: "player_t \<Rightarrow> player_t loop_step" where
  "state_set_volume w =
     (let w = (if loc_digit w = 0 then beep_mute 1 w
               else
                 let w = w\<lparr>loc_digit := loc_digit w - 1\<rparr>;
                     w = (if sint (loc_digit w) > 7 then w\<lparr>loc_digit := 7\<rparr> else w)
                 in beep_mute 0 (beep_gain (loc_digit w) w))
      in Continue (w\<lparr>player_state := STATE_GET_NOTE\<rparr>))"

definition state_set_transposition :: "player_t \<Rightarrow> player_t loop_step" where
  "state_set_transposition w =
     (let w = (if loc_number w < 12 then w\<lparr>transposition := ucast (loc_number w)\<rparr>
               else w\<lparr>transposition := 0\<rparr>)
      in Continue (w\<lparr>player_state := STATE_GET_NOTE\<rparr>))"

definition state_set_key :: "player_t \<Rightarrow> player_t loop_step" where
  "state_set_key w =
     Continue (w\<lparr>scale := c_major_scale, loc_digit := 7, accidental := ACCIDENTAL_SHARP,
                 player_state := STATE_SET_KEY_2\<rparr>)"

definition state_set_key_2 :: "memory \<Rightarrow> player_t \<Rightarrow> player_t loop_step" where
  "state_set_key_2 mem w =
     (let (c, w) = next_player_char mem w;
          w = w\<lparr>loc_ch := c\<rparr>
      in if is_note (sint c) then
           (let c = c - CH CHR ''A'';
                w = w\<lparr>loc_ch := c\<rparr>
            in if 0 \<le> sint c \<and> nat (sint c) < length c_major_scale
                  \<and> nat (sint c) < length (scale w) then
                 (let w = w\<lparr>loc_digit := c_major_scale ! nat (sint c)\<rparr>;
                      w = w\<lparr>loc_digit := loc_digit w + accidental w\<rparr>
                  in Continue (w\<lparr>scale := (scale w)[nat (sint c) := loc_digit w]\<rparr>))
               else Fault_step)
         else if is_flat (sint c) then Continue (w\<lparr>accidental := ACCIDENTAL_FLAT\<rparr>)
         else if is_natural (sint c) then Continue (w\<lparr>accidental := ACCIDENTAL_NATURAL\<rparr>)
         else if is_sharp (sint c) then Continue (w\<lparr>accidental := ACCIDENTAL_SHARP\<rparr>)
         else Continue (w\<lparr>player_ptr := player_ptr w - 1, player_state := STATE_GET_NOTE\<rparr>))"

definition state_set_tempo :: "player_t \<Rightarrow> player_t loop_step" where
  "state_set_tempo w =
     Continue (w\<lparr>player_state := STATE_GET_NUMBER, next_state := STATE_SET_TEMPO_2\<rparr>)"

definition state_set_tempo_2 :: "player_t \<Rightarrow> player_t loop_step" where
  "state_set_tempo_2 w =
     (let w = (if loc_number w = 0 then w\<lparr>loc_number := DEFAULT_TEMPO\<rparr> else w);
          w = w\<lparr>whole_note_period := whole_note_ticks (note_size w) (loc_number w)\<rparr>;
          w = (if size_modifier w AND MOD_DOTTED \<noteq> 0
               then w\<lparr>whole_note_period := whole_note_period w + drop_bit 1 (whole_note_period w)\<rparr>
               else w);
          w = (if size_modifier w AND MOD_TRIPLET \<noteq> 0
               then w\<lparr>whole_note_period := whole_note_period w div 3\<rparr> else w)
      in Continue (w\<lparr>player_state := STATE_GET_NOTE\<rparr>))"

definition state_set_bookmark :: "player_t \<Rightarrow> player_t loop_step" where
  "state_set_bookmark w =
     Continue (w\<lparr>player_state := STATE_GET_NUMBER, next_state := STATE_SET_BOOKMARK_2\<rparr>)"

definition state_set_bookmark_2 :: "player_t \<Rightarrow> player_t loop_step" where
  "state_set_bookmark_2 w =
     (let w = (if loc_number w > 0xFE then w\<lparr>loc_number := 0xFE\<rparr> else w);
          w = (if loc_number w = 0 then w\<lparr>loc_number := 0xFF\<rparr> else w)
      in if 0 \<le> sint (loc_digit w) \<and> nat (sint (loc_digit w)) < length (bookmark w) then
           Continue (w\<lparr>bookmark := (bookmark w)
                          [nat (sint (loc_digit w)) :=
                             \<lparr>position = player_ptr w, repeat = ucast (loc_number w)\<rparr>],
                       player_state := STATE_GET_NOTE\<rparr>)
         else Fault_step)"

definition state_goto_bookmark :: "player_t \<Rightarrow> player_t loop_step" where
  "state_goto_bookmark w =
     (if 0 \<le> sint (loc_digit w) \<and> nat (sint (loc_digit w)) < length (bookmark w) then
        (let i = nat (sint (loc_digit w));
             w = (if repeat (bookmark w ! i) \<noteq> 0 \<and> position (bookmark w ! i) \<noteq> 0 then
                    let w = (if repeat (bookmark w ! i) \<noteq> 0xFF then
                               w\<lparr>bookmark := (bookmark w)
                                    [i := (bookmark w ! i)\<lparr>repeat := repeat (bookmark w ! i) - 1\<rparr>]\<rparr>
                             else w)
                    in w\<lparr>player_ptr := position (bookmark w ! i)\<rparr>
                  else w)
         in Continue (w\<lparr>player_state := STATE_GET_NOTE\<rparr>))
      else Fault_step)"

definition state_stop :: "player_t \<Rightarrow> player_t loop_step" where
  "state_stop w = Break ((player_stop w)\<lparr>player_state := STATE_RESET\<rparr>)"

text \<open>The body of the loop: the reset branch is taken in \<^verbatim>\<open>STATE_RESET\<close> and whenever
  \<^verbatim>\<open>player_enable\<close> is \<^verbatim>\<open>PLAYER_INIT\<close>; otherwise the branch of the current state.\<close>

definition player_step :: "memory \<Rightarrow> player_t \<Rightarrow> player_t loop_step" where
  "player_step mem w =
     (if player_state w = STATE_RESET \<or> player_enable w = PLAYER_INIT then state_reset w
      else case player_state w of
        STATE_RESET \<Rightarrow> state_reset w
      | STATE_GET_NOTE \<Rightarrow> state_get_note mem w
      | STATE_GET_MODIFIER \<Rightarrow> state_get_modifier mem w
      | STATE_START_NOTE \<Rightarrow> state_start_note w
      | STATE_WAIT_NOTE \<Rightarrow> state_wait_note w
      | STATE_START_REST \<Rightarrow> state_start_rest w
      | STATE_WAIT_REST \<Rightarrow> state_wait_rest w
      | STATE_GET_DIGIT \<Rightarrow> state_get_digit mem w
      | STATE_GET_NUMBER \<Rightarrow> state_get_number mem w
      | STATE_GET_NUMBER_2 \<Rightarrow> state_get_number_2 mem w
      | STATE_SET_OCTAVE \<Rightarrow> state_set_octave w
      | STATE_SET_NOTE_RATIO \<Rightarrow> state_set_note_ratio w
      | STATE_SET_VOLUME \<Rightarrow> state_set_volume w
      | STATE_SET_TRANSPOSITION \<Rightarrow> state_set_transposition w
      | STATE_SET_KEY \<Rightarrow> state_set_key w
      | STATE_SET_KEY_2 \<Rightarrow> state_set_key_2 mem w
      | STATE_SET_TEMPO \<Rightarrow> state_set_tempo w
      | STATE_SET_TEMPO_2 \<Rightarrow> state_set_tempo_2 w
      | STATE_SET_BOOKMARK \<Rightarrow> state_set_bookmark w
      | STATE_SET_BOOKMARK_2 \<Rightarrow> state_set_bookmark_2 w
      | STATE_GOTO_BOOKMARK \<Rightarrow> state_goto_bookmark w
      | STATE_STOP \<Rightarrow> state_stop w)"

text \<open>The loop itself. A score can keep it running for ever (a bookmark with an infinite
  repeat count and no note inside), so it carries fuel.\<close>

fun player_loop :: "nat \<Rightarrow> memory \<Rightarrow> player_t \<Rightarrow> player_t outcome" where
  "player_loop 0 mem w = Out_of_fuel"
| "player_loop (Suc fuel) mem w =
     (case player_step mem w of
        Continue w' \<Rightarrow> player_loop fuel mem w'
      | Break w' \<Rightarrow> Done w'
      | Fault_step \<Rightarrow> Fault)"

text \<open>\<^verbatim>\<open>player_service()\<close>, called on every tick.\<close>

definition player_service :: "nat \<Rightarrow> memory \<Rightarrow> player_t \<Rightarrow> player_t outcome" where
  "player_service fuel mem w =
     (if player_enable w = PLAYER_STOP then Done w
      else player_loop fuel mem
             (w\<lparr>loc_number := 0, loc_digit := 0, loc_ch := 0, player_timer := player_timer w + 1\<rparr>))"

text \<open>\<open>n\<close> ticks: \<open>n\<close> calls of \<^verbatim>\<open>player_service\<close> in a row.\<close>

fun player_ticks :: "nat \<Rightarrow> nat \<Rightarrow> memory \<Rightarrow> player_t \<Rightarrow> player_t outcome" where
  "player_ticks 0 fuel mem w = Done w"
| "player_ticks (Suc n) fuel mem w =
     (case player_service fuel mem w of
        Done w' \<Rightarrow> player_ticks n fuel mem w'
      | Fault \<Rightarrow> Fault
      | Out_of_fuel \<Rightarrow> Out_of_fuel)"

text \<open>A score in RAM: the bytes of \<open>s\<close> from address \<open>base\<close> on, then the terminating 0.\<close>

definition score_at :: "nat \<Rightarrow> string \<Rightarrow> memory" where
  "score_at base s =
     (\<lambda>space a. if space = PLAYER_MEM_RAM \<and> base \<le> a \<and> a < base + length s
                 then of_char (s ! (a - base)) else 0)"

text \<open>Starting a score from power-up and running \<open>n\<close> ticks: \<^verbatim>\<open>player_start\<close> on the score
  placed at address 256 of RAM, then \<open>n\<close> calls of \<^verbatim>\<open>player_service\<close>.\<close>

definition play_score :: "nat \<Rightarrow> nat \<Rightarrow> string \<Rightarrow> player_t outcome" where
  "play_score n fuel s =
     (case player_start fuel (score_at 256 s) 256 PLAYER_MEM_RAM player_power_up of
        Done w \<Rightarrow> player_ticks n fuel (score_at 256 s) w
      | Fault \<Rightarrow> Fault
      | Out_of_fuel \<Rightarrow> Out_of_fuel)"

text \<open>The notes a trace of tone generator calls starts: the calls of \<^verbatim>\<open>beep_period\<close> that
  select a running prescaler.\<close>

definition notes_started :: "tone_cmd list \<Rightarrow> (uint16_t \<times> uint8_t) list" where
  "notes_started t =
     concat (map (\<lambda>c. case c of Beep_period period prescale \<Rightarrow>
                                 (if prescale \<noteq> PRESCALE_STOP then [(period, prescale)] else [])
                             | Beep_mute m \<Rightarrow> []
                             | Beep_gain g \<Rightarrow> []) t)"

text \<open>Three states of the run of the score \<open>[0:3:C]0:\<close>, as the evaluation of the model
  gives them.\<close>

text \<open>The state after 936 ticks, in the rest that follows the third C.\<close>

definition loop_score_third_rest :: player_t where
  "loop_score_third_rest =
     \<lparr>player_timer = 38, player_ptr = 262, player_mem_space = PLAYER_MEM_RAM,
      player_enable = 1,
      bookmark = \<lparr>position = 260, repeat = 1\<rparr> # replicate 9 \<lparr>position = 0, repeat = 0\<rparr>,
      player_state = STATE_WAIT_REST, next_state = STATE_START_NOTE,
      note_nr = 0, octave = 4, accidental = 0, transposition = 0,
      note_size = 4, size_modifier = 0, note_rest_ratio = 7,
      whole_note_period = 1250, note_period = 273, rest_period = 39,
      scale = [9, 11, 0, 2, 4, 5, 7], loc_ch = 0, loc_digit = 0, loc_number = 0,
      tone =
        [Beep_mute 1, Beep_period 255 0, Beep_period 255 0, Beep_mute 0,
         Beep_gain 5, Beep_period 30580 1, Beep_period 255 0,
         Beep_period 30580 1, Beep_period 255 0, Beep_period 30580 1,
         Beep_period 255 0]\<rparr>"

text \<open>The state after 937 ticks, when the third jump has been taken and the fourth C has begun.\<close>

definition loop_score_fourth_note :: player_t where
  "loop_score_fourth_note =
     \<lparr>player_timer = 0, player_ptr = 262, player_mem_space = PLAYER_MEM_RAM,
      player_enable = 1,
      bookmark = \<lparr>position = 260, repeat = 0\<rparr> # replicate 9 \<lparr>position = 0, repeat = 0\<rparr>,
      player_state = STATE_WAIT_NOTE, next_state = STATE_START_NOTE,
      note_nr = 0, octave = 4, accidental = 0, transposition = 0,
      note_size = 4, size_modifier = 0, note_rest_ratio = 7,
      whole_note_period = 1250, note_period = 273, rest_period = 39,
      scale = [9, 11, 0, 2, 4, 5, 7], loc_ch = 4, loc_digit = 1, loc_number = 30580,
      tone =
        [Beep_mute 1, Beep_period 255 0, Beep_period 255 0, Beep_mute 0,
         Beep_gain 5, Beep_period 30580 1, Beep_period 255 0,
         Beep_period 30580 1, Beep_period 255 0, Beep_period 30580 1,
         Beep_period 255 0, Beep_period 30580 1]\<rparr>"

text \<open>The state after 1249 ticks, when the player has stopped.\<close>

definition loop_score_final :: player_t where
  "loop_score_final =
     \<lparr>player_timer = 0, player_ptr = 265, player_mem_space = PLAYER_MEM_RAM,
      player_enable = 0,
      bookmark = \<lparr>position = 260, repeat = 0\<rparr> # replicate 9 \<lparr>position = 0, repeat = 0\<rparr>,
      player_state = STATE_RESET, next_state = STATE_GOTO_BOOKMARK,
      note_nr = 0, octave = 4, accidental = 0, transposition = 0,
      note_size = 4, size_modifier = 0, note_rest_ratio = 7,
      whole_note_period = 1250, note_period = 273, rest_period = 39,
      scale = [9, 11, 0, 2, 4, 5, 7], loc_ch = 0, loc_digit = 0, loc_number = 0,
      tone =
        [Beep_mute 1, Beep_period 255 0, Beep_period 255 0, Beep_mute 0,
         Beep_gain 5, Beep_period 30580 1, Beep_period 255 0,
         Beep_period 30580 1, Beep_period 255 0, Beep_period 30580 1,
         Beep_period 255 0, Beep_period 30580 1, Beep_period 255 0, Beep_mute 1,
         Beep_period 255 0]\<rparr>"

text \<open>\<open>k\<close> encounters of the command \<open>]n\<close> that ends at address \<open>q\<close> of the score, with
  nothing in between that changes bookmark \<open>n\<close>: each is one pass through
  \<^verbatim>\<open>STATE_GOTO_BOOKMARK\<close> with \<^verbatim>\<open>player_ptr = q\<close> and \<^verbatim>\<open>digit = n\<close>. The result is the number of
  passes that moved \<^verbatim>\<open>player_ptr\<close> away from \<open>q\<close>, that is the number of jumps taken.\<close>

fun goto_jumps_count :: "nat \<Rightarrow> nat \<Rightarrow> player_t \<Rightarrow> nat" where
  "goto_jumps_count 0 q w = 0"
| "goto_jumps_count (Suc k) q w =
     (case state_goto_bookmark (w\<lparr>player_ptr := q\<rparr>) of
        Continue w' \<Rightarrow> (if player_ptr w' \<noteq> q then 1 else 0) + goto_jumps_count k q w'
      | Break w' \<Rightarrow> 0
      | Fault_step \<Rightarrow> 0)"

section \<open>Properties of the timekeeper\<close>

lemma word16_and_3_eq_0: "(y::uint16_t) AND 3 = 0 \<longleftrightarrow> unat y mod 4 = 0"
proof -
  have "y AND 3 = take_bit 2 y"
    by (simp add: take_bit_eq_mask mask_eq_exp_minus_1)
  hence "unat (y AND 3) = unat y mod 4"
    by (simp add: take_bit_eq_mod unat_mod)
  thus ?thesis by (metis unat_eq_0)
qed

lemma word16_mod_100_eq_0: "(y::uint16_t) mod 100 = 0 \<longleftrightarrow> unat y mod 100 = 0"
proof -
  have "unat (y mod 100) = unat y mod 100" by (simp add: unat_mod)
  thus ?thesis by (metis unat_eq_0)
qed

lemma days_in_month_february:
  "days_in_month 2 y = Some (if unat y mod 4 = 0 \<and> unat y mod 100 \<noteq> 0 then 29 else 28)"
  by (simp add: days_in_month_def days_month_def word16_and_3_eq_0 word16_mod_100_eq_0)

text \<open>Claim C1 (the code departs from it). At 23:59:59 on the last day of a month the
  update rolls the time over to 00:00:00 and increments the month, but it does not reset
  the day: on 31 January 2009 the day becomes 32 and the month 2.\<close>

theorem time_date_update_last_day_of_month:
  "time_date_update
     \<lparr>time = \<lparr>hour = 23, minute = 59, second = 59\<rparr>,
      date = \<lparr>year = 2009, month = 1, day = 31\<rparr>, run = 1\<rparr>
   = Some \<lparr>time = \<lparr>hour = 0, minute = 0, second = 0\<rparr>,
           date = \<lparr>year = 2009, month = 2, day = 32\<rparr>, run = 1\<rparr>"
  by (simp add: time_date_update_def days_in_month_def days_month_def Let_def)

text \<open>The same at the end of the year: the year and the month roll over, the day is 32.\<close>

lemma time_date_update_last_day_of_year:
  "time_date_update
     \<lparr>time = \<lparr>hour = 23, minute = 59, second = 59\<rparr>,
      date = \<lparr>year = 2009, month = 12, day = 31\<rparr>, run = 1\<rparr>
   = Some \<lparr>time = \<lparr>hour = 0, minute = 0, second = 0\<rparr>,
           date = \<lparr>year = 2010, month = 1, day = 32\<rparr>, run = 1\<rparr>"
  by (simp add: time_date_update_def days_in_month_def days_month_def Let_def)

text \<open>In general: on the last day of any month of a valid date, with the clock running,
  the day after the update is one more than the number of days of the month.\<close>

lemma time_date_update_day_not_reset:
  assumes "valid_clock c" and "run c \<noteq> 0"
    and "hour (time c) = 23" and "minute (time c) = 59" and "second (time c) = 59"
    and "days_in_month (month (date c)) (year (date c)) = Some (day (date c))"
  shows "\<exists>c'. time_date_update c = Some c' \<and> time c' = \<lparr>hour = 0, minute = 0, second = 0\<rparr>
           \<and> day (date c') = day (date c) + 1 \<and> day (date c') \<noteq> 1"
proof -
  have d: "day (date c) \<le> 31"
    using assms(1,6)
    by (auto simp: valid_clock_def days_in_month_def days_month_def nth_Cons' split: if_splits)
  hence lt: "day (date c) < day (date c) + 1"
    by (simp add: word_less_nat_alt word_le_nat_alt unat_word_ariths)
  from assms(1) have "1 \<le> day (date c)" by (simp add: valid_clock_def)
  hence ne: "day (date c) + 1 \<noteq> 1" by auto
  show ?thesis
    using assms lt ne
    by (auto simp: time_date_update_def Let_def split: option.splits)
qed

text \<open>Claim C2 (the code departs from it). For February 2000 the code returns 28 days,
  not 29: its leap rule excludes every year divisible by 100.\<close>

theorem days_in_month_february_2000:
  "days_in_month 2 2000 = Some 28"
  by (simp add: days_in_month_def days_month_def)

text \<open>Claim C3. For every year \<open>y\<close> in 2000..2099, \<^verbatim>\<open>days_in_month(2, y)\<close> is 29 if and only
  if \<open>y mod 4 = 0\<close> and \<open>y mod 100 \<noteq> 0\<close>, and 28 otherwise.\<close>

theorem days_in_month_february_leap_rule:
  assumes "2000 \<le> y" and "y \<le> 2099"
  shows "(days_in_month 2 y = Some 29 \<longleftrightarrow> unat y mod 4 = 0 \<and> unat y mod 100 \<noteq> 0) \<and>
         (\<not> (unat y mod 4 = 0 \<and> unat y mod 100 \<noteq> 0) \<longrightarrow> days_in_month 2 y = Some 28)"
  by (simp add: days_in_month_february)

theorem days_in_month_february_leap_rule_witness:
  "(2000::uint16_t) \<le> 2004 \<and> (2004::uint16_t) \<le> 2099 \<and> days_in_month 2 2004 = Some 29 \<and>
   (2000::uint16_t) \<le> 2001 \<and> (2001::uint16_t) \<le> 2099 \<and> days_in_month 2 2001 = Some 28"
proof -
  have a: "(2000::uint16_t) \<le> 2004" "(2004::uint16_t) \<le> 2099" by simp_all
  have b: "(2000::uint16_t) \<le> 2001" "(2001::uint16_t) \<le> 2099" by simp_all
  show ?thesis
    using days_in_month_february_leap_rule [OF a] days_in_month_february_leap_rule [OF b] a b
    by simp
qed

section \<open>Properties of the event queue\<close>

lemma word8_succ_bound: "unat (h::uint8_t) < 16 \<Longrightarrow> unat (h + 1) = Suc (unat h)"
  by (simp add: unat_word_ariths)

text \<open>The head index does stay within 0..15.\<close>

lemma add_event_head_in_range:
  assumes "unat (event_queue_head q) < EVENT_QUEUE_SIZE"
    and "length (event_queue q) = EVENT_QUEUE_SIZE"
  shows "\<exists>q'. add_event ev d q = Some q' \<and> unat (event_queue_head q') < EVENT_QUEUE_SIZE
              \<and> length (event_queue q') = EVENT_QUEUE_SIZE"
proof -
  from assms(1) have s: "unat (event_queue_head q + 1) = Suc (unat (event_queue_head q))"
    by (simp add: EVENT_QUEUE_SIZE_def word8_succ_bound)
  show ?thesis
    using assms s by (auto simp: add_event_def Let_def EVENT_QUEUE_SIZE_def)
qed

text \<open>In every full queue whose oldest event lies in slot 15, whatever the slots hold,
  \<^verbatim>\<open>add_event\<close> leaves the tail at 16.\<close>

lemma add_event_full_tail_15:
  assumes "event_queue_head q = 14" and "event_queue_tail q = 15"
    and "length (event_queue q) = EVENT_QUEUE_SIZE"
  shows "\<exists>q'. add_event ev d q = Some q' \<and> event_queue_head q' = 15 \<and> event_queue_tail q' = 16"
  using assms by (simp add: add_event_def Let_def EVENT_QUEUE_SIZE_def)

text \<open>Claim C5 (the code departs from it). Starting from the cleared queue, fifteen events
  are queued and read back, then fifteen more are queued: the queue is full with head 14
  and tail 15. The next \<^verbatim>\<open>add_event\<close> moves the head to 15 and the tail to 16, outside
  0..15, and the following \<^verbatim>\<open>get_next_event\<close> reads slot 16 of the sixteen-slot array.\<close>

theorem add_event_tail_leaves_queue:
  "(case scan_for_events (replicate 15 (ONE_SECOND_ELAPSED, 0)) (clear_events event_queue_reset) of
      None \<Rightarrow> False
    | Some q1 \<Rightarrow>
       (case get_events 15 q1 of
          None \<Rightarrow> False
        | Some q2 \<Rightarrow>
           (case scan_for_events (replicate 15 (ONE_SECOND_ELAPSED, 0)) q2 of
              None \<Rightarrow> False
            | Some q3 \<Rightarrow>
                event_queue_head q3 = 14 \<and> event_queue_tail q3 = 15 \<and>
                (case add_event ONE_SECOND_ELAPSED 0 q3 of
                   None \<Rightarrow> False
                 | Some q4 \<Rightarrow>
                     event_queue_head q4 = 15 \<and> event_queue_tail q4 = 16 \<and>
                     length (event_queue q4) = 16 \<and>
                     get_next_event [] q4 = None))))"
  by code_simp

section \<open>Properties of the virtual display streams\<close>

lemma clear_segments_length [simp]: "length (clear_segments n i sd) = length sd"
  by (induction n arbitrary: i sd) simp_all

lemma clear_segments_nth:
  "j < length sd \<Longrightarrow>
   clear_segments n i sd ! j = (if i \<le> j \<and> j < i + n then 0 else sd ! j)"
  by (induction n arbitrary: i sd) (auto simp: nth_list_update)

lemma clear_segments_set: "set (clear_segments n i sd) \<subseteq> insert 0 (set sd)"
proof (induction n arbitrary: i sd)
  case 0
  show ?case by auto
next
  case (Suc n)
  have "set (clear_segments n (Suc i) (sd[i := 0])) \<subseteq> insert 0 (set (sd[i := 0]))"
    by (rule Suc.IH)
  moreover have "set (sd[i := 0]) \<subseteq> insert 0 (set sd)"
    by (rule set_update_subset_insert)
  ultimately show ?case by auto
qed

lemma clear_nixie_display_eq:
  assumes "length sd = NIXIE_SEGMENTS"
  shows "clear_nixie_display sd = replicate NIXIE_SEGMENTS 0"
  using assms by (intro nth_equalityI) (simp_all add: clear_nixie_display_def clear_segments_nth)

lemma nixie_stream_init_eq:
  assumes "length sd = NIXIE_SEGMENTS"
  shows "nixie_stream_init sd =
           \<lparr>segdata = replicate NIXIE_SEGMENTS 0, cursor = 0, intensity = MAX_NIXIE_INTENSITY,
            state = NORMAL_OUTPUT, control = control_all_0\<rparr>"
  using assms by (simp add: nixie_stream_init_def nixie_control_init_def clear_nixie_display_eq)

lemma nixie_write_example_signed:
  "nixie_write True (map CH (CHR 0x0C # ''@3*5A''))
     \<lparr>segdata = replicate NIXIE_SEGMENTS 0, cursor = 0, intensity = MAX_NIXIE_INTENSITY,
      state = NORMAL_OUTPUT, control = control_all_0\<rparr>
   = \<lparr>segdata = (replicate NIXIE_SEGMENTS 0)[32 := 5, 33 := 5], cursor = 4, intensity = 5,
      state = NORMAL_OUTPUT, control = control_all_0\<rparr>"
  by code_simp

lemma nixie_write_example_unsigned:
  "nixie_write False (map CH (CHR 0x0C # ''@3*5A''))
     \<lparr>segdata = replicate NIXIE_SEGMENTS 0, cursor = 0, intensity = MAX_NIXIE_INTENSITY,
      state = NORMAL_OUTPUT, control = control_all_0\<rparr>
   = \<lparr>segdata = (replicate NIXIE_SEGMENTS 0)[32 := 5, 33 := 5], cursor = 4, intensity = 5,
      state = NORMAL_OUTPUT, control = control_all_0\<rparr>"
  by code_simp

lemma nixie_write_example_eval:
  "nixie_write schar (map CH (CHR 0x0C # ''@3*5A''))
     \<lparr>segdata = replicate NIXIE_SEGMENTS 0, cursor = 0, intensity = MAX_NIXIE_INTENSITY,
      state = NORMAL_OUTPUT, control = control_all_0\<rparr>
   = \<lparr>segdata = (replicate NIXIE_SEGMENTS 0)[32 := 5, 33 := 5], cursor = 4, intensity = 5,
      state = NORMAL_OUTPUT, control = control_all_0\<rparr>"
proof (cases schar)
  case True
  then show ?thesis by (simp only: nixie_write_example_signed)
next
  case False
  then show ?thesis by (simp only: nixie_write_example_unsigned)
qed

text \<open>Claim C9. Writing the six bytes form feed, \<open>@\<close>, \<open>3\<close>, \<open>*\<close>, \<open>5\<close>, \<open>A\<close> to a freshly
  initialised stream leaves the cursor at 4, segment buffer entries 32 and 33 (segments 0
  and 1 of tube 3) at intensity 5 and the other 62 entries at 0, whatever the buffer held
  before and whichever signedness \<^verbatim>\<open>char\<close> has.\<close>

theorem nixie_write_example:
  assumes "length sd = NIXIE_SEGMENTS"
  shows "(let p = nixie_write schar (map CH (CHR 0x0C # ''@3*5A'')) (nixie_stream_init sd)
          in cursor p = 4 \<and> length (segdata p) = NIXIE_SEGMENTS \<and>
             segdata p ! 32 = 5 \<and> segdata p ! 33 = 5 \<and>
             (\<forall>i < NIXIE_SEGMENTS. i \<noteq> 32 \<and> i \<noteq> 33 \<longrightarrow> segdata p ! i = 0))"
  by (simp only: nixie_stream_init_eq [OF assms] nixie_write_example_eval Let_def)
     (simp add: nth_list_update)

theorem nixie_write_example_witness:
  "length (replicate 64 (7::uint8_t)) = NIXIE_SEGMENTS \<and>
   (let p = nixie_write True (map CH (CHR 0x0C # ''@3*5A'')) (nixie_stream_init (replicate 64 7))
    in cursor p = 4 \<and> segdata p ! 32 = 5 \<and> segdata p ! 33 = 5 \<and> segdata p ! 34 = 0)"
proof -
  have l: "length (replicate 64 (7::uint8_t)) = NIXIE_SEGMENTS" by simp
  show ?thesis
    using nixie_write_example [OF l, of True] by (simp add: Let_def)
qed

subsection \<open>The invariant of the streams\<close>

lemma word8_pred_less: "(c::uint8_t) \<noteq> 0 \<Longrightarrow> c - 1 < c"
  by (simp add: word_less_nat_alt unat_minus_one unat_gt_0 [symmetric])  

lemma word8_pred_le: "(c::uint8_t) \<noteq> 0 \<Longrightarrow> c \<le> m \<Longrightarrow> c - 1 \<le> m"
  using word8_pred_less [of c] by simp

lemma set_nixie_segment_length [simp]:
  "length (set_nixie_segment sd d s v) = length sd"
  by (simp add: set_nixie_segment_def)

lemma set_nixie_segment_in_set:
  "x \<in> set (set_nixie_segment sd d s v) \<Longrightarrow> x = v \<or> x \<in> set sd"
  using set_update_subset_insert [of sd _ v] by (auto simp: set_nixie_segment_def)

lemma clear_nixie_digit_length [simp]:
  "length (clear_nixie_digit sd d) = length sd"
  by (simp add: clear_nixie_digit_def Let_def)

lemma clear_nixie_digit_in_set:
  "x \<in> set (clear_nixie_digit sd d) \<Longrightarrow> x = 0 \<or> x \<in> set sd"
  using clear_segments_set by (fastforce simp: clear_nixie_digit_def Let_def)

lemma clear_nixie_display_length [simp]:
  "length (clear_nixie_display sd) = length sd"
  by (simp add: clear_nixie_display_def)

lemma clear_nixie_display_in_set:
  "x \<in> set (clear_nixie_display sd) \<Longrightarrow> x = 0 \<or> x \<in> set sd"
  using clear_segments_set by (fastforce simp: clear_nixie_display_def)

lemma stream_ok_control_update [simp]: "stream_ok (p\<lparr>control := c\<rparr>) = stream_ok p"
  by (simp add: stream_ok_def)

lemma stream_ok_state_update [simp]: "stream_ok (p\<lparr>state := c\<rparr>) = stream_ok p"
  by (simp add: stream_ok_def)

lemma inc_cursor_ok: "stream_ok p \<Longrightarrow> stream_ok (inc_cursor p b)"
  by (auto simp: stream_ok_def inc_cursor_def Let_def)

lemma dec_cursor_ok: "stream_ok p \<Longrightarrow> stream_ok (dec_cursor p)"
proof -
  assume ok: "stream_ok p"
  have "cursor p - 1 AND 0x80 = 0 \<Longrightarrow> cursor p - 1 \<le> 6"
  proof -
    assume a: "cursor p - 1 AND 0x80 = 0"
    have "cursor p \<noteq> 0" using a by auto
    thus ?thesis using ok word8_pred_le by (simp add: stream_ok_def)
  qed
  thus ?thesis using ok by (auto simp: stream_ok_def dec_cursor_def Let_def)
qed

lemma nixie_out_displayable_ok: "stream_ok p \<Longrightarrow> stream_ok (nixie_out_displayable t ch p)"
  apply (simp only: nixie_out_displayable_def Let_def stream_ok_control_update)
  apply (rule inc_cursor_ok)
  apply (auto simp: stream_ok_def dest!: set_nixie_segment_in_set clear_nixie_digit_in_set)
  done

lemma stream_ok_segdata_update:
  "stream_ok (p\<lparr>segdata := sd\<rparr>) \<longleftrightarrow>
     cursor p \<le> 6 \<and> intensity p \<le> 9 \<and> length sd = 64 \<and> (\<forall>x\<in>set sd. x \<le> 9)"
  by (simp add: stream_ok_def)

lemma stream_ok_intensity_update:
  "stream_ok (p\<lparr>intensity := v\<rparr>) \<longleftrightarrow>
     cursor p \<le> 6 \<and> v \<le> 9 \<and> length (segdata p) = 64 \<and> (\<forall>x\<in>set (segdata p). x \<le> 9)"
  by (simp add: stream_ok_def)

lemma stream_ok_cursor_update:
  "stream_ok (p\<lparr>cursor := c\<rparr>) \<longleftrightarrow>
     c \<le> 6 \<and> intensity p \<le> 9 \<and> length (segdata p) = 64 \<and> (\<forall>x\<in>set (segdata p). x \<le> 9)"
  by (simp add: stream_ok_def)

lemmas stream_ok_updates =
  stream_ok_segdata_update stream_ok_intensity_update stream_ok_cursor_update

lemma stream_ok_if:
  "(c \<Longrightarrow> stream_ok a) \<Longrightarrow> (\<not> c \<Longrightarrow> stream_ok b) \<Longrightarrow> stream_ok (if c then a else b)"
  by simp

lemma stream_ok_if_eq:
  "stream_ok a \<Longrightarrow> stream_ok b \<Longrightarrow> stream_ok (if ch = k then a else b)"
  by simp

lemma nixie_out_control_ok: "stream_ok p \<Longrightarrow> stream_ok (nixie_out_control ch p)"
proof -
  assume ok: "stream_ok p"
  have parts: "cursor p \<le> 6" "intensity p \<le> 9" "length (segdata p) = 64"
    "\<forall>x\<in>set (segdata p). x \<le> 9"
    using ok by (simp_all add: stream_ok_def)
  have seg: "\<And>d. stream_ok (p\<lparr>segdata := set_nixie_segment (segdata p) d 0 (intensity p)\<rparr>)"
    "\<And>d. stream_ok (p\<lparr>segdata := set_nixie_segment (segdata p) d 0 0\<rparr>)"
    "stream_ok (p\<lparr>segdata := set_nixie_segment (set_nixie_segment (segdata p) 6 0 0) 7 0 0\<rparr>)"
    using ok by (auto simp: stream_ok_def dest!: set_nixie_segment_in_set)
  have dn: "intensity p \<noteq> 0 \<Longrightarrow> stream_ok (p\<lparr>intensity := intensity p - 1\<rparr>)"
    using parts by (simp add: stream_ok_intensity_update word8_pred_le)
  have up: "intensity p < 9 \<Longrightarrow> stream_ok (p\<lparr>intensity := intensity p + 1\<rparr>)"
    using parts by (simp add: stream_ok_intensity_update inc_le)
  have rest: "stream_ok (p\<lparr>intensity := 9\<rparr>)"
    "stream_ok (p\<lparr>segdata := clear_nixie_display (segdata p)\<rparr>)"
    "stream_ok (p\<lparr>segdata := clear_nixie_display (segdata p), cursor := 0\<rparr>)"
    "stream_ok (p\<lparr>cursor := 0\<rparr>)"
    "stream_ok (p\<lparr>intensity := 9, cursor := 0\<rparr>)"
    using ok by (auto simp: stream_ok_def dest!: clear_nixie_display_in_set)
  show ?thesis
    unfolding nixie_out_control_def Let_def
    by (intro stream_ok_if_eq [where ch = ch] stream_ok_if)
       (simp_all only: ok inc_cursor_ok dec_cursor_ok stream_ok_control_update
          stream_ok_state_update seg dn up rest simp_thms)
qed

lemma nixie_out_unsigned_ok: "stream_ok p \<Longrightarrow> stream_ok (nixie_out False ch p)"
proof -
  assume ok: "stream_ok p"
  have parts: "cursor p \<le> 6" "intensity p \<le> 9" "length (segdata p) = 64"
    "\<forall>x\<in>set (segdata p). x \<le> 9"
    using ok by (simp_all add: stream_ok_def)
  have par: "\<And>v. uint v \<le> uint (9::uint8_t) \<Longrightarrow> stream_ok (p\<lparr>intensity := v\<rparr>)"
    "\<And>v. uint v \<le> uint (6::uint8_t) \<Longrightarrow> stream_ok (p\<lparr>cursor := v\<rparr>)"
    using parts by (simp_all add: stream_ok_updates word_le_def)
  show ?thesis
    unfolding nixie_out_def Let_def char_int_def
    apply (simp only: if_False)
    apply (rule stream_ok_if)
     apply (simp only: stream_ok_state_update)
     apply (intro stream_ok_if)
         apply (simp_all only: ok par)[5]
    apply (intro stream_ok_if)
        apply (simp_all only: ok nixie_out_displayable_ok nixie_out_control_ok)
    done
qed

lemma nixie_write_unsigned_ok: "stream_ok p \<Longrightarrow> stream_ok (nixie_write False chs p)"
  by (induction chs arbitrary: p) (simp_all add: nixie_out_unsigned_ok)

lemma nixie_stream_init_ok: "length sd = 64 \<Longrightarrow> stream_ok (nixie_stream_init sd)"
  by (simp add: nixie_stream_init_eq stream_ok_def)

text \<open>Compiled with an unsigned plain \<^verbatim>\<open>char\<close>, every byte sequence written to a fresh
  stream keeps the invariant: a parameter byte below \<open>0\<close> wraps to a value above 9 and is
  ignored.\<close>

lemma nixie_write_unsigned_invariant:
  "length sd = 64 \<Longrightarrow> stream_ok (nixie_write False chs (nixie_stream_init sd))"
  by (simp add: nixie_write_unsigned_ok nixie_stream_init_ok)

text \<open>Claim C4 (the code departs from it where plain \<^verbatim>\<open>char\<close> is signed, the avr-gcc
  default). After \<open>*\<close> the space character (0x20) is taken as the intensity parameter:
  \<^verbatim>\<open>ch -= '0'\<close> gives -16, which passes \<^verbatim>\<open>ch <= MAX_NIXIE_INTENSITY\<close>, and the intensity
  becomes 240. The next digit written stores 240 in the segment buffer. After \<open>@\<close> the
  same byte sets the cursor to 240.\<close>

theorem nixie_out_signed_char_parameter:
  "intensity (nixie_write True (map CH ''* '') (nixie_stream_init (replicate 64 0))) = 240 \<and>
   segdata (nixie_write True (map CH ''* 1'') (nixie_stream_init (replicate 64 0))) ! 1 = 240 \<and>
   cursor (nixie_write True (map CH ''@ '') (nixie_stream_init (replicate 64 0))) = 240"
  by code_simp

section \<open>Properties of the crossfade\<close>

lemma fade_segments_length [simp]:
  "length (fst (fade_segments k index p_to p_from a)) = length p_from"
  by (induction k arbitrary: index p_from a) simp_all

lemma list_update_same: "xs ! i = v \<Longrightarrow> xs[i := v] = xs"
  by (metis list_update_id)

lemma fade_segments_Suc:
  "fade_segments (Suc k) index p_to p_from a =
     fade_segments k (Suc index) p_to (p_from[index := fade_step (p_to ! index) (p_from ! index)])
       (if fade_step (p_to ! index) (p_from ! index) \<noteq> p_from ! index then a + 1 else a)"
  by (simp add: fade_step_def list_update_same)

lemma fade_segments_nth:
  "j < length p_from \<Longrightarrow>
   fst (fade_segments k index p_to p_from a) ! j =
     (if index \<le> j \<and> j < index + k then fade_step (p_to ! j) (p_from ! j) else p_from ! j)"
proof (induction k arbitrary: index p_from a)
  case 0
  show ?case by auto
next
  case (Suc k)
  have eq: "\<And>i. \<not> Suc i \<le> j \<Longrightarrow> i \<le> j \<Longrightarrow> i = j" by arith
  from Suc.prems show ?case
    by (simp only: fade_segments_Suc) (auto simp add: Suc.IH dest: eq)
qed

lemma fade_segments_activity:
  "snd (fade_segments k index p_to p_from a) =
     a + of_nat (length (filter (\<lambda>j. fade_step (p_to ! j) (p_from ! j) \<noteq> p_from ! j)
                           [index..<index + k]))"
proof (induction k arbitrary: index p_from a)
  case 0
  show ?case by simp
next
  case (Suc k)
  let ?v = "fade_step (p_to ! index) (p_from ! index)"
  have upt: "[index..<index + Suc k] = index # [Suc index..<Suc index + k]"
    by (simp add: upt_conv_Cons)
  have same: "filter (\<lambda>j. fade_step (p_to ! j) (p_from[index := ?v] ! j) \<noteq> p_from[index := ?v] ! j)
                  [Suc index..<Suc index + k]
              = filter (\<lambda>j. fade_step (p_to ! j) (p_from ! j) \<noteq> p_from ! j)
                  [Suc index..<Suc index + k]"
    by (rule filter_cong) auto
  show ?case
    by (simp only: fade_segments_Suc Suc.IH same upt) simp
qed


lemma word8_of_nat_eq_0: "n \<le> 64 \<Longrightarrow> (of_nat n :: uint8_t) = 0 \<longleftrightarrow> n = 0"
  by (simp add: word_of_nat_eq_0_iff) (auto dest: dvd_imp_le)

lemma word8_unat_Suc: "(f::uint8_t) < t \<Longrightarrow> unat (f + 1) = Suc (unat f)"
proof -
  assume "f < t"
  hence "unat f < unat t" by (simp add: word_less_nat_alt)
  moreover have "unat t < 256" using unsigned_less [of t] by simp
  ultimately have "Suc (unat f) < 256" by simp
  thus ?thesis by (simp add: unat_word_ariths)
qed

lemma fade_step_unat:
  "fade_step t f \<noteq> f \<Longrightarrow>
     Suc (if t \<noteq> 0 then unat t - unat (fade_step t f) else unat (fade_step t f))
       = (if t \<noteq> 0 then unat t - unat f else unat f)"
proof (cases "t = 0")
  case True
  assume "fade_step t f \<noteq> f"
  with True have "f \<noteq> 0" by (auto simp: fade_step_def)
  with True show ?thesis by (simp add: fade_step_def unat_minus_one unat_gt_0)
next
  case False
  assume "fade_step t f \<noteq> f"
  with False have lt: "f < t" by (auto simp: fade_step_def split: if_splits)
  hence "unat f < unat t" by (simp add: word_less_nat_alt)
  with False lt show ?thesis by (simp add: fade_step_def word8_unat_Suc [OF lt])
qed

lemma fade_end_step: "fade_end t (fade_step t f) = fade_end t f"
  by (auto simp: fade_end_def fade_step_def dest: inc_le)

lemma fade_end_fixed: "fade_step t f = f \<Longrightarrow> fade_end t f = f"
  by (auto simp: fade_end_def fade_step_def split: if_splits)

lemma fade_pass_nth:
  "NIXIE_SEGMENTS \<le> length p_from \<Longrightarrow> j < NIXIE_SEGMENTS \<Longrightarrow>
   fst (fade_segments NIXIE_SEGMENTS 0 p_to p_from a) ! j = fade_step (p_to ! j) (p_from ! j)"
  by (simp add: fade_segments_nth del: fade_segments.simps)

lemma fade_pass_nth_beyond:
  "j < length p_from \<Longrightarrow> NIXIE_SEGMENTS \<le> j \<Longrightarrow>
   fst (fade_segments NIXIE_SEGMENTS 0 p_to p_from a) ! j = p_from ! j"
  by (simp add: fade_segments_nth del: fade_segments.simps)

lemma fade_pass_activity:
  "snd (fade_segments NIXIE_SEGMENTS 0 p_to p_from 0) = 0 \<longleftrightarrow>
     (\<forall>j<NIXIE_SEGMENTS. fade_step (p_to ! j) (p_from ! j) = p_from ! j)"
proof -
  let ?l = "filter (\<lambda>j. fade_step (p_to ! j) (p_from ! j) \<noteq> p_from ! j) [0..<0 + NIXIE_SEGMENTS]"
  have "length ?l \<le> length [0..<0 + NIXIE_SEGMENTS]" by (rule length_filter_le)
  hence le: "length ?l \<le> 64" by simp
  have "snd (fade_segments NIXIE_SEGMENTS 0 p_to p_from 0) = of_nat (length ?l)"
    by (simp only: fade_segments_activity add_0)
  hence "snd (fade_segments NIXIE_SEGMENTS 0 p_to p_from 0) = 0 \<longleftrightarrow> ?l = []"
    using word8_of_nat_eq_0 [OF le] by simp
  also have "\<dots> \<longleftrightarrow> (\<forall>j<NIXIE_SEGMENTS. fade_step (p_to ! j) (p_from ! j) = p_from ! j)"
    by (auto simp: filter_empty_conv)
  finally show ?thesis .
qed

lemma fade_pass_distance:
  assumes len: "NIXIE_SEGMENTS \<le> length p_from"
    and act: "snd (fade_segments NIXIE_SEGMENTS 0 p_to p_from 0) \<noteq> 0"
  shows "fade_distance p_to (fst (fade_segments NIXIE_SEGMENTS 0 p_to p_from 0))
           < fade_distance p_to p_from"
proof -
  let ?d = "\<lambda>t f. if t \<noteq> 0 then unat t - unat f else unat (f::uint8_t)"
  let ?new = "fst (fade_segments NIXIE_SEGMENTS 0 p_to p_from 0)"
  have le: "\<forall>j\<in>{..<NIXIE_SEGMENTS}. ?d (p_to ! j) (?new ! j) \<le> ?d (p_to ! j) (p_from ! j)"
  proof
    fix j assume "j \<in> {..<NIXIE_SEGMENTS}"
    hence j: "j < NIXIE_SEGMENTS" by simp
    show "?d (p_to ! j) (?new ! j) \<le> ?d (p_to ! j) (p_from ! j)"
    proof (cases "fade_step (p_to ! j) (p_from ! j) = p_from ! j")
      case True
      thus ?thesis by (simp only: fade_pass_nth [OF len j])
    next
      case False
      from fade_step_unat [OF False] show ?thesis
        unfolding fade_pass_nth [OF len j] by linarith
    qed
  qed
  from act obtain j where j: "j < NIXIE_SEGMENTS"
    and ch: "fade_step (p_to ! j) (p_from ! j) \<noteq> p_from ! j"
    by (auto simp: fade_pass_activity)
  have "?d (p_to ! j) (?new ! j) < ?d (p_to ! j) (p_from ! j)"
    using fade_step_unat [OF ch] unfolding fade_pass_nth [OF len j] by linarith
  with j have ex: "\<exists>j\<in>{..<NIXIE_SEGMENTS}. ?d (p_to ! j) (?new ! j) < ?d (p_to ! j) (p_from ! j)"
    by blast
  have "(\<Sum>j<NIXIE_SEGMENTS. ?d (p_to ! j) (?new ! j)) < (\<Sum>j<NIXIE_SEGMENTS. ?d (p_to ! j) (p_from ! j))"
    by (rule sum_strict_mono_ex1 [OF _ le ex]) simp
  thus ?thesis by (simp only: fade_distance_def)
qed

lemma wait_one_cycle_fields:
  "wait_one_cycle c = Some c1 \<Longrightarrow>
     crossfade_rate c1 = crossfade_rate c \<and> crossfade_count c1 = crossfade_count c"
  by (auto simp: wait_one_cycle_def split: if_splits)

lemma word2_less_unat_Suc: "(a::2 word) < b \<Longrightarrow> unat (a + 1) = Suc (unat a)"
proof -
  assume "a < b"
  hence "unat a < unat b" by (simp add: word_less_nat_alt)
  moreover have "unat b < 4" using unsigned_less [of b] by simp
  ultimately have "Suc (unat a) < 4" by simp
  thus ?thesis by (simp add: unat_word_ariths)
qed

termination crossfade_loop
proof (relation "measures [\<lambda>(p_to, c, p_from, n). fade_distance p_to p_from,
                           \<lambda>(p_to, c, p_from, n). unat (crossfade_rate c) - unat (crossfade_count c)]")
  show "wf (measures [\<lambda>(p_to, c, p_from, n). fade_distance p_to p_from,
                      \<lambda>(p_to, c, p_from, n). unat (crossfade_rate c) - unat (crossfade_count c)])"
    by simp
next
  fix p_to c p_from n c1
  assume w: "wait_one_cycle c = Some c1" and lt: "crossfade_count c1 < crossfade_rate c1"
  from lt have "unat (crossfade_count c1) < unat (crossfade_rate c1)"
    by (simp add: word_less_nat_alt)
  with wait_one_cycle_fields [OF w] word2_less_unat_Suc [OF lt]
  have "unat (crossfade_rate c1) - unat (crossfade_count c1 + 1)
          < unat (crossfade_rate c) - unat (crossfade_count c)"
    by simp
  thus "((p_to, c1\<lparr>one_cycle_done := False, refresh_enable := True,
                  crossfade_count := crossfade_count c1 + 1\<rparr>, p_from, Suc n),
         (p_to, c, p_from, n))
        \<in> measures [\<lambda>(p_to, c, p_from, n). fade_distance p_to p_from,
                     \<lambda>(p_to, c, p_from, n). unat (crossfade_rate c) - unat (crossfade_count c)]"
    by simp
next
  fix p_to c p_from n c1
  assume len: "\<not> (length p_to < NIXIE_SEGMENTS \<or> length p_from < NIXIE_SEGMENTS)"
    and act: "snd (fade_segments NIXIE_SEGMENTS 0 p_to p_from 0) \<noteq> 0"
  from len have "NIXIE_SEGMENTS \<le> length p_from" by simp
  from fade_pass_distance [OF this act]
  show "((p_to, c1\<lparr>one_cycle_done := False, refresh_enable := True, crossfade_count := 0\<rparr>,
          fst (fade_segments NIXIE_SEGMENTS 0 p_to p_from 0), Suc n),
         (p_to, c, p_from, n))
        \<in> measures [\<lambda>(p_to, c, p_from, n). fade_distance p_to p_from,
                     \<lambda>(p_to, c, p_from, n). unat (crossfade_rate c) - unat (crossfade_count c)]"
    by simp
qed


declare crossfade_loop.simps [simp del]

lemma crossfade_loop_result:
  assumes "length p_to = NIXIE_SEGMENTS" and "length p_from = NIXIE_SEGMENTS"
  shows "(one_cycle_done c \<or> refresh_enable c \<longrightarrow> crossfade_loop p_to c p_from n \<noteq> None) \<and>
         (\<forall>c' p' n'. crossfade_loop p_to c p_from n = Some (c', p', n') \<longrightarrow>
             length p' = NIXIE_SEGMENTS \<and>
             (\<forall>i<NIXIE_SEGMENTS. p' ! i = fade_end (p_to ! i) (p_from ! i)))"
  using assms
proof (induction p_to c p_from n rule: crossfade_loop.induct)
  case (1 p_to c p_from n)
  let ?new = "fst (fade_segments NIXIE_SEGMENTS 0 p_to p_from 0)"
  let ?act = "snd (fade_segments NIXIE_SEGMENTS 0 p_to p_from 0)"
  from "1.prems" have len: "\<not> (length p_to < NIXIE_SEGMENTS \<or> length p_from < NIXIE_SEGMENTS)"
    by simp
  from "1.prems" have len': "NIXIE_SEGMENTS \<le> length p_from" by simp
  show ?case
  proof (cases "wait_one_cycle c")
    case None
    hence "\<not> (one_cycle_done c \<or> refresh_enable c)"
      by (auto simp: wait_one_cycle_def split: if_splits)
    moreover from None len have "crossfade_loop p_to c p_from n = None"
      by (subst crossfade_loop.simps) simp
    ultimately show ?thesis by simp
  next
    case (Some c1)
    show ?thesis
    proof (cases "crossfade_count c1 < crossfade_rate c1")
      case True
      let ?c = "c1\<lparr>one_cycle_done := False, refresh_enable := True,
                     crossfade_count := crossfade_count c1 + 1\<rparr>"
      from Some True len
      have eq: "crossfade_loop p_to c p_from n = crossfade_loop p_to ?c p_from (Suc n)"
        by (subst crossfade_loop.simps) simp
      from "1.IH"(1) [OF len Some True "1.prems"] show ?thesis
        unfolding eq by simp
    next
      case False
      let ?c = "c1\<lparr>one_cycle_done := False, refresh_enable := True, crossfade_count := 0\<rparr>"
      show ?thesis
      proof (cases "?act = 0")
        case act: False
        from Some False act len
        have eq: "crossfade_loop p_to c p_from n = crossfade_loop p_to ?c ?new (Suc n)"
          by (subst crossfade_loop.simps) simp
        have l: "length ?new = NIXIE_SEGMENTS" using "1.prems" by simp
        have fe: "\<And>i. i < NIXIE_SEGMENTS \<Longrightarrow>
                   fade_end (p_to ! i) (?new ! i) = fade_end (p_to ! i) (p_from ! i)"
          by (simp only: fade_pass_nth [OF len'] fade_end_step)
        from "1.IH"(2) [OF len Some False act "1.prems"(1) l] show ?thesis
          unfolding eq by (simp add: fe)
      next
        case act: True
        from Some False act len
        have eq: "crossfade_loop p_to c p_from n = Some (?c, ?new, Suc n)"
          by (subst crossfade_loop.simps) simp
        have l: "length ?new = NIXIE_SEGMENTS" using "1.prems" by simp
        have "\<And>i. i < NIXIE_SEGMENTS \<Longrightarrow> ?new ! i = fade_end (p_to ! i) (p_from ! i)"
        proof -
          fix i :: nat assume i: "i < NIXIE_SEGMENTS"
          with act have "fade_step (p_to ! i) (p_from ! i) = p_from ! i"
            by (simp add: fade_pass_activity)
          thus "?new ! i = fade_end (p_to ! i) (p_from ! i)"
            by (simp only: fade_pass_nth [OF len' i] fade_end_fixed)
        qed
        with l show ?thesis unfolding eq by simp
      qed
    qed
  qed
qed

text \<open>Claim C10. For buffers of 64 segments: with display refresh enabled the crossfade
  returns, and whenever it returns each segment \<open>i\<close> of the active buffer ends at the
  target intensity if that was above its starting value, at 0 if the target is 0, and at
  its starting value, unchanged, if the target is above 0 and not above the starting
  value.\<close>

theorem nixie_crossfade_final_segments:
  assumes "length p_to = NIXIE_SEGMENTS" and "length p_from = NIXIE_SEGMENTS"
  shows "(refresh_enable c \<longrightarrow> (\<exists>r. nixie_crossfade p_to c p_from = Some r)) \<and>
         (\<forall>c' p' n. nixie_crossfade p_to c p_from = Some (c', p', n) \<longrightarrow>
            length p' = NIXIE_SEGMENTS \<and>
            (\<forall>i<NIXIE_SEGMENTS.
               p' ! i = (if p_from ! i < p_to ! i then p_to ! i
                         else if p_to ! i = 0 then 0 else p_from ! i)))"
proof -
  let ?c = "c\<lparr>one_cycle_only := True, one_cycle_done := False, crossfade_count := 3\<rparr>"
  have fe: "\<And>t f. fade_end t f = (if f < t then t else if t = 0 then 0 else f)"
    by (auto simp: fade_end_def)
  note res = crossfade_loop_result [OF assms, of ?c 0]
  show ?thesis
  proof (cases "crossfade_loop p_to ?c p_from 0")
    case None
    with res have "\<not> refresh_enable c" by simp
    with None show ?thesis by (simp add: nixie_crossfade_def)
  next
    case (Some r)
    obtain c1 p1 n1 where r: "r = (c1, p1, n1)" by (cases r)
    from res Some r have p1: "length p1 = NIXIE_SEGMENTS"
      "\<forall>i<NIXIE_SEGMENTS. p1 ! i = fade_end (p_to ! i) (p_from ! i)"
      by blast+
    have eq: "nixie_crossfade p_to c p_from = Some (c1\<lparr>one_cycle_only := False\<rparr>, p1, n1)"
      by (simp add: nixie_crossfade_def Some r)
    show ?thesis
      unfolding eq using p1 by (simp add: fe)
  qed
qed

theorem nixie_crossfade_final_segments_witness:
  "length (replicate 64 (2::uint8_t)) = NIXIE_SEGMENTS \<and>
   length ((replicate 64 (5::uint8_t))[0 := 0]) = NIXIE_SEGMENTS \<and>
   (\<exists>c' p' n. nixie_crossfade (replicate 64 2)
        \<lparr>crossfade_rate = 1, crossfade_count = 0, one_cycle_done = False,
         one_cycle_only = False, refresh_enable = True\<rparr> ((replicate 64 5)[0 := 0])
      = Some (c', p', n) \<and> p' ! 0 = 2 \<and> p' ! 1 = 5)"
proof -
  let ?c = "\<lparr>crossfade_rate = 1, crossfade_count = 0, one_cycle_done = False,
             one_cycle_only = False, refresh_enable = True\<rparr>"
  have a: "length (replicate 64 (2::uint8_t)) = NIXIE_SEGMENTS" by simp
  have b: "length ((replicate 64 (5::uint8_t))[0 := 0]) = NIXIE_SEGMENTS" by simp
  from nixie_crossfade_final_segments [OF a b, of ?c]
  obtain c' p' n where r: "nixie_crossfade (replicate 64 2) ?c ((replicate 64 5)[0 := 0])
      = Some (c', p', n)"
    by auto
  from nixie_crossfade_final_segments [OF a b, of ?c] r
  have all: "\<forall>i<NIXIE_SEGMENTS. p' ! i =
      (if (replicate 64 5)[0 := 0] ! i < replicate 64 (2::uint8_t) ! i then replicate 64 2 ! i
       else if replicate 64 (2::uint8_t) ! i = 0 then 0 else (replicate 64 5)[0 := 0] ! i)"
    by blast
  from all [rule_format, of 0] all [rule_format, of 1]
  have "p' ! 0 = 2 \<and> p' ! 1 = 5" by simp
  with r a b show ?thesis by blast
qed

text \<open>A crossfade towards the buffer that is being shown changes nothing: no pass finds a
  segment to move.\<close>

lemma fade_step_same: "fade_step t t = t"
  by (simp add: fade_step_def)

subsection \<open>Fading a fully lit display out\<close>

lemma crossfade_loop_rate_0:
  "crossfade_loop (replicate 64 0)
     \<lparr>crossfade_rate = 0, crossfade_count = 3, one_cycle_done = False, one_cycle_only = True,
      refresh_enable = True\<rparr> (replicate 64 9) 0
   = Some (\<lparr>crossfade_rate = 0, crossfade_count = 0, one_cycle_done = False,
            one_cycle_only = True, refresh_enable = True\<rparr>, replicate 64 0, 10)"
  by code_simp

lemma crossfade_loop_rate_1:
  "crossfade_loop (replicate 64 0)
     \<lparr>crossfade_rate = 1, crossfade_count = 3, one_cycle_done = False, one_cycle_only = True,
      refresh_enable = True\<rparr> (replicate 64 9) 0
   = Some (\<lparr>crossfade_rate = 1, crossfade_count = 0, one_cycle_done = False,
            one_cycle_only = True, refresh_enable = True\<rparr>, replicate 64 0, 19)"
  by code_simp

lemma crossfade_loop_rate_2:
  "crossfade_loop (replicate 64 0)
     \<lparr>crossfade_rate = 2, crossfade_count = 3, one_cycle_done = False, one_cycle_only = True,
      refresh_enable = True\<rparr> (replicate 64 9) 0
   = Some (\<lparr>crossfade_rate = 2, crossfade_count = 0, one_cycle_done = False,
            one_cycle_only = True, refresh_enable = True\<rparr>, replicate 64 0, 28)"
  by code_simp

lemma crossfade_loop_rate_3:
  "crossfade_loop (replicate 64 0)
     \<lparr>crossfade_rate = 3, crossfade_count = 3, one_cycle_done = False, one_cycle_only = True,
      refresh_enable = True\<rparr> (replicate 64 9) 0
   = Some (\<lparr>crossfade_rate = 3, crossfade_count = 0, one_cycle_done = False,
            one_cycle_only = True, refresh_enable = True\<rparr>, replicate 64 0, 37)"
  by code_simp

lemma word8_le_3_cases: "(r::uint8_t) \<le> 3 \<Longrightarrow> r = 0 \<or> r = 1 \<or> r = 2 \<or> r = 3"
proof -
  assume "r \<le> 3"
  hence "unat r \<le> 3" by (simp add: word_le_nat_alt)
  hence "unat r = 0 \<or> unat r = 1 \<or> unat r = 2 \<or> unat r = 3" by arith
  thus ?thesis by (simp add: word_unat_eq_iff)
qed

lemma crossfade_entry_state:
  "refresh_enable c \<Longrightarrow>
   (nixie_crossfade_rate rate c)\<lparr>one_cycle_only := True, one_cycle_done := False,
                                 crossfade_count := 3\<rparr>
   = \<lparr>crossfade_rate = ucast (if rate \<le> 3 then rate else 3), crossfade_count = 3,
      one_cycle_done = False, one_cycle_only = True, refresh_enable = True\<rparr>"
  by (cases c) (simp add: nixie_crossfade_rate_def)

text \<open>Claim C8, as amended. For every crossfade rate \<open>r\<close> in 0..3 set with
  \<^verbatim>\<open>nixie_crossfade_rate\<close>, with display refresh enabled, the active buffer at intensity 9
  throughout and the target buffer at 0 throughout, \<^verbatim>\<open>nixie_crossfade\<close> returns after
  exactly \<open>9 \<cdot> (r + 1) + 1\<close> waits for a PWM cycle, and on return every segment of the
  active buffer is 0. The first pass adjusts at once, each of the eight further fading
  passes and the final pass, which finds nothing left to change, come after \<open>r\<close> throttled
  cycles.\<close>

theorem nixie_crossfade_fade_out:
  assumes "rate \<le> MAX_NIXIE_CROSSFADE_RATE" and "refresh_enable c"
  shows "\<exists>c'. nixie_crossfade (replicate NIXIE_SEGMENTS 0) (nixie_crossfade_rate rate c)
                 (replicate NIXIE_SEGMENTS MAX_NIXIE_INTENSITY)
              = Some (c', replicate NIXIE_SEGMENTS 0,
                      unat MAX_NIXIE_INTENSITY * (unat rate + 1) + 1)"
  using word8_le_3_cases [OF assms(1)]
  by (auto simp: nixie_crossfade_def crossfade_entry_state [OF assms(2)]
      crossfade_loop_rate_0 crossfade_loop_rate_1 crossfade_loop_rate_2 crossfade_loop_rate_3)

theorem nixie_crossfade_fade_out_witness:
  "(3::uint8_t) \<le> MAX_NIXIE_CROSSFADE_RATE \<and>
   refresh_enable \<lparr>crossfade_rate = 0, crossfade_count = 0, one_cycle_done = False,
                   one_cycle_only = False, refresh_enable = True\<rparr> \<and>
   (\<exists>c'. nixie_crossfade (replicate 64 0)
            (nixie_crossfade_rate 3 \<lparr>crossfade_rate = 0, crossfade_count = 0,
               one_cycle_done = False, one_cycle_only = False, refresh_enable = True\<rparr>)
            (replicate 64 9)
         = Some (c', replicate 64 0, 37))"
proof -
  let ?c = "\<lparr>crossfade_rate = 0, crossfade_count = 0, one_cycle_done = False,
             one_cycle_only = False, refresh_enable = True\<rparr>"
  have a: "(3::uint8_t) \<le> MAX_NIXIE_CROSSFADE_RATE" by simp
  have b: "refresh_enable ?c" by simp
  from nixie_crossfade_fade_out [OF a b] a b show ?thesis by simp
qed

text \<open>Claim C8 as stated fails: at rate 0 the call returns after 10 waits, more than
  \<open>9 \<cdot> (0 + 1)\<close>.\<close>

theorem nixie_crossfade_cycle_bound_counterexample:
  "nixie_crossfade (replicate 64 0)
     \<lparr>crossfade_rate = 0, crossfade_count = 0, one_cycle_done = False,
      one_cycle_only = False, refresh_enable = True\<rparr> (replicate 64 9)
   = Some (\<lparr>crossfade_rate = 0, crossfade_count = 0, one_cycle_done = False,
            one_cycle_only = False, refresh_enable = True\<rparr>, replicate 64 0, 10)
   \<and> \<not> (10::nat) \<le> unat MAX_NIXIE_INTENSITY * (0 + 1)"
  by (simp add: nixie_crossfade_def crossfade_loop_rate_0)

section \<open>Properties of the music player\<close>

lemma player_service_stopped:
  "player_enable w = PLAYER_STOP \<Longrightarrow> player_service fuel mem w = Done w"
  by (simp add: player_service_def)

lemma player_ticks_stopped:
  "player_enable w = PLAYER_STOP \<Longrightarrow> player_ticks n fuel mem w = Done w"
  by (induction n) (simp_all add: player_service_stopped)

lemma player_ticks_add:
  "player_ticks (a + b) fuel mem w =
     (case player_ticks a fuel mem w of
        Done w' \<Rightarrow> player_ticks b fuel mem w'
      | Fault \<Rightarrow> Fault
      | Out_of_fuel \<Rightarrow> Out_of_fuel)"
  by (induction a arbitrary: w) (simp_all split: outcome.splits)

lemma play_score_add:
  "play_score (a + b) fuel s =
     (case play_score a fuel s of
        Done w \<Rightarrow> player_ticks b fuel (score_at 256 s) w
      | Fault \<Rightarrow> Fault
      | Out_of_fuel \<Rightarrow> Out_of_fuel)"
  by (simp add: play_score_def player_ticks_add split: outcome.splits)

lemma loop_score_936: "play_score 936 100 ''[0:3:C]0:'' = Done loop_score_third_rest"
  by code_simp

lemma loop_score_tick_937:
  "player_ticks 1 100 (score_at 256 ''[0:3:C]0:'') loop_score_third_rest = Done loop_score_fourth_note"
  by code_simp

lemma loop_score_ticks_to_end:
  "player_ticks 312 100 (score_at 256 ''[0:3:C]0:'') loop_score_fourth_note = Done loop_score_final"
  by code_simp

lemma loop_score_937: "play_score 937 100 ''[0:3:C]0:'' = Done loop_score_fourth_note"
proof -
  have "play_score (936 + 1) 100 ''[0:3:C]0:'' = Done loop_score_fourth_note"
    by (simp only: play_score_add loop_score_936 outcome.case loop_score_tick_937)
  thus ?thesis by simp
qed

lemma loop_score_1249: "play_score 1249 100 ''[0:3:C]0:'' = Done loop_score_final"
proof -
  have "play_score (937 + 312) 100 ''[0:3:C]0:'' = Done loop_score_final"
    by (simp only: play_score_add loop_score_937 outcome.case loop_score_ticks_to_end)
  thus ?thesis by simp
qed

lemma loop_score_stays_stopped:
  "play_score (1249 + n) 100 ''[0:3:C]0:'' = Done loop_score_final"
  by (simp only: play_score_add [of 1249 n] loop_score_1249 outcome.case)
     (simp add: player_ticks_stopped loop_score_final_def)

lemma loop_score_observations:
  "notes_started (tone loop_score_third_rest) = [(30580, 1), (30580, 1), (30580, 1)]"
  "repeat (bookmark loop_score_third_rest ! 0) = 1"
  "notes_started (tone loop_score_fourth_note) = [(30580, 1), (30580, 1), (30580, 1), (30580, 1)]"
  "repeat (bookmark loop_score_fourth_note ! 0) = 0"
  "notes_started (tone loop_score_final) = [(30580, 1), (30580, 1), (30580, 1), (30580, 1)]"
  "repeat (bookmark loop_score_final ! 0) = 0"
  "player_is_stopped loop_score_final"
  "\<not> player_is_stopped loop_score_fourth_note"
  "note_table ! 4 ! 0 = (30580, PRESCALE_1)"
  by (simp_all add: loop_score_third_rest_def loop_score_fourth_note_def loop_score_final_def
      notes_started_def player_is_stopped_def note_table_def)

subsection \<open>The jump to a bookmark\<close>

lemma state_goto_bookmark_taken:
  assumes "0 \<le> sint (loc_digit w)" and "nat (sint (loc_digit w)) < length (bookmark w)"
    and "repeat (bookmark w ! nat (sint (loc_digit w))) \<noteq> 0"
    and "repeat (bookmark w ! nat (sint (loc_digit w))) \<noteq> 0xFF"
    and "position (bookmark w ! nat (sint (loc_digit w))) \<noteq> 0"
  shows "state_goto_bookmark w =
           Continue (w\<lparr>bookmark := (bookmark w)
                         [nat (sint (loc_digit w)) :=
                            (bookmark w ! nat (sint (loc_digit w)))
                              \<lparr>repeat := repeat (bookmark w ! nat (sint (loc_digit w))) - 1\<rparr>],
                       player_ptr := position (bookmark w ! nat (sint (loc_digit w))),
                       player_state := STATE_GET_NOTE\<rparr>)"
  using assms by (simp add: state_goto_bookmark_def Let_def)

lemma state_goto_bookmark_not_taken:
  assumes "0 \<le> sint (loc_digit w)" and "nat (sint (loc_digit w)) < length (bookmark w)"
    and "repeat (bookmark w ! nat (sint (loc_digit w))) = 0"
  shows "state_goto_bookmark w = Continue (w\<lparr>player_state := STATE_GET_NOTE\<rparr>)"
  using assms by (simp add: state_goto_bookmark_def Let_def)

lemma goto_jumps_count_eq:
  assumes "0 \<le> sint (loc_digit w)" and "nat (sint (loc_digit w)) < length (bookmark w)"
    and "position (bookmark w ! nat (sint (loc_digit w))) = p" and "p \<noteq> 0" and "q \<noteq> p"
    and "repeat (bookmark w ! nat (sint (loc_digit w))) = r" and "r \<le> 254"
  shows "goto_jumps_count k q w = min k (unat r)"
  using assms
proof (induction k arbitrary: w r)
  case 0
  show ?case by simp
next
  case (Suc k)
  let ?i = "nat (sint (loc_digit w))"
  let ?w = "w\<lparr>player_ptr := q\<rparr>"
  show ?case
  proof (cases "r = 0")
    case True
    with Suc.prems have step: "state_goto_bookmark ?w = Continue (?w\<lparr>player_state := STATE_GET_NOTE\<rparr>)"
      by (intro state_goto_bookmark_not_taken) simp_all
    have "goto_jumps_count k q (?w\<lparr>player_state := STATE_GET_NOTE\<rparr>) = min k (unat r)"
      using Suc.prems by (intro Suc.IH) simp_all
    with True show ?thesis by (simp add: step)
  next
    case False
    from Suc.prems(7) have "r \<noteq> 0xFF" by auto
    let ?w' = "?w\<lparr>bookmark := (bookmark ?w)[?i := (bookmark ?w ! ?i)\<lparr>repeat := repeat (bookmark ?w ! ?i) - 1\<rparr>],
                  player_ptr := position (bookmark ?w ! ?i), player_state := STATE_GET_NOTE\<rparr>"
    from Suc.prems False \<open>r \<noteq> 0xFF\<close>
    have step: "state_goto_bookmark ?w = Continue ?w'"
      using state_goto_bookmark_taken [of ?w] by simp
    have le: "r - 1 \<le> 254"
      using Suc.prems(7) False by (simp add: word_le_nat_alt unat_minus_one)
    have ih: "goto_jumps_count k q ?w' = min k (unat (r - 1))"
      using Suc.prems le by (intro Suc.IH) simp_all
    have ptr: "player_ptr ?w' \<noteq> q" using Suc.prems by simp
    have "unat r \<noteq> 0" using False by (simp add: unat_eq_0)
    hence "min (Suc k) (unat r) = Suc (min k (unat (r - 1)))"
      using False by (simp add: unat_minus_one)
    thus ?thesis using ptr ih by (simp add: step)
  qed
qed

subsection \<open>The transpose command\<close>

text \<open>Whatever follows it in the score, the letter P read in \<^verbatim>\<open>STATE_GET_NOTE\<close> takes the
  player to \<^verbatim>\<open>STATE_STOP\<close>, and from there the next pass stops the player.\<close>

lemma state_get_note_transpose:
  assumes "player_mem_space w = PLAYER_MEM_RAM"
    and "mem PLAYER_MEM_RAM (player_ptr w) = CH CHR ''P''"
  shows "state_get_note mem w =
           Continue (w\<lparr>player_ptr := player_ptr w + 1, loc_ch := CH CHR ''P'',
                       player_state := STATE_STOP, next_state := STATE_SET_TRANSPOSITION\<rparr>)"
  using assms by (simp add: state_get_note_def next_player_char_def get_note_stop_def Let_def)

lemma player_loop_transpose:
  assumes "player_mem_space w = PLAYER_MEM_RAM"
    and "mem PLAYER_MEM_RAM (player_ptr w) = CH CHR ''P''"
    and "player_state w = STATE_GET_NOTE" and "player_enable w = PLAYER_RUN"
  shows "player_loop (Suc (Suc fuel)) mem w =
           Done (player_stop (w\<lparr>player_ptr := player_ptr w + 1, loc_ch := CH CHR ''P'',
                                 player_state := STATE_STOP,
                                 next_state := STATE_SET_TRANSPOSITION\<rparr>)
                 \<lparr>player_state := STATE_RESET\<rparr>)"
  using assms
  by (simp add: player_step_def state_get_note_transpose state_stop_def)

text \<open>Claim C6 (the code departs from it). On the score \<open>P5:C\<close> the first tick reads the
  command letter P and stops the player: the transposition is still 0, no note is
  started, and \<^verbatim>\<open>player_ptr\<close> is left just behind the P.\<close>

theorem player_transpose_command_stops:
  "(case play_score 1 100 ''P5:C'' of
      Done w \<Rightarrow> player_is_stopped w \<and> transposition w = 0 \<and> notes_started (tone w) = []
                 \<and> player_ptr w = 257 \<and> next_state w = STATE_SET_TRANSPOSITION
    | Fault \<Rightarrow> False
    | Out_of_fuel \<Rightarrow> False)"
  by code_simp

subsection \<open>The bookmark loop\<close>

text \<open>\<^verbatim>\<open>STATE_SET_BOOKMARK_2\<close> stores a repeat count between 1 and 254 as it is written in the
  score, with the position that follows the bookmark command.\<close>

lemma state_set_bookmark_2_count:
  assumes "0 \<le> sint (loc_digit w)" and "nat (sint (loc_digit w)) < length (bookmark w)"
    and "1 \<le> loc_number w" and "loc_number w \<le> 254"
  shows "state_set_bookmark_2 w =
           Continue (w\<lparr>bookmark := (bookmark w)
                         [nat (sint (loc_digit w)) :=
                            \<lparr>position = player_ptr w, repeat = ucast (loc_number w)\<rparr>],
                       player_state := STATE_GET_NOTE\<rparr>)"
proof -
  from assms(3) have "loc_number w \<noteq> 0" by auto
  moreover from assms(4) have "\<not> loc_number w > 0xFE" by simp
  ultimately show ?thesis
    using assms(1,2) by (simp add: state_set_bookmark_2_def Let_def)
qed

text \<open>Claim C7, as amended. Started on the score \<open>[0:3:C]0:\<close> the player plays the note C
  (octave 4, \<^verbatim>\<open>note_table[4][0]\<close>) exactly four times in total and then stops: after 936
  ticks three notes have been started and the repeat counter of bookmark 0 is 1; the
  next tick takes the third jump, which decrements the counter to 0, and starts the
  fourth C; after 1249 ticks the player has stopped and stays as it is. In general,
  for a bookmark with a recorded position and a repeat counter \<open>r\<close> from 1 to 254, the
  jump command back to it is taken exactly \<open>r\<close> times, however often the command is
  met.\<close>

theorem player_bookmark_loop:
  assumes "0 \<le> sint (loc_digit w)" and "nat (sint (loc_digit w)) < length (bookmark w)"
    and "position (bookmark w ! nat (sint (loc_digit w))) = p" and "p \<noteq> 0" and "q \<noteq> p"
    and "repeat (bookmark w ! nat (sint (loc_digit w))) = r" and "1 \<le> r" and "r \<le> 254"
  shows "play_score 936 100 ''[0:3:C]0:'' = Done loop_score_third_rest \<and>
         notes_started (tone loop_score_third_rest) = replicate 3 (note_table ! 4 ! 0) \<and>
         repeat (bookmark loop_score_third_rest ! 0) = 1 \<and>
         play_score 937 100 ''[0:3:C]0:'' = Done loop_score_fourth_note \<and>
         notes_started (tone loop_score_fourth_note) = replicate 4 (note_table ! 4 ! 0) \<and>
         repeat (bookmark loop_score_fourth_note ! 0) = 0 \<and>
         \<not> player_is_stopped loop_score_fourth_note \<and>
         (\<forall>n. play_score (1249 + n) 100 ''[0:3:C]0:'' = Done loop_score_final) \<and>
         player_is_stopped loop_score_final \<and>
         notes_started (tone loop_score_final) = replicate 4 (note_table ! 4 ! 0) \<and>
         goto_jumps_count k q w = min k (unat r)"
proof -
  have rep: "replicate 3 (note_table ! 4 ! 0) = [(30580, 1), (30580, 1), (30580, 1)]"
    "replicate 4 (note_table ! 4 ! 0) = [(30580, 1), (30580, 1), (30580, 1), (30580, 1)]"
    by (simp_all only: loop_score_observations(9)) (simp_all add: eval_nat_numeral)
  have "goto_jumps_count k q w = min k (unat r)"
    using assms(1-6,8) by (rule goto_jumps_count_eq)
  thus ?thesis
    by (simp only: rep loop_score_936 loop_score_937 loop_score_stays_stopped
        loop_score_observations(1-8) simp_thms)
qed

theorem player_bookmark_loop_witness:
  "0 \<le> sint (loc_digit loop_score_third_rest) \<and>
   nat (sint (loc_digit loop_score_third_rest)) < length (bookmark loop_score_third_rest) \<and>
   position (bookmark loop_score_third_rest ! nat (sint (loc_digit loop_score_third_rest))) = 260 \<and>
   (260::nat) \<noteq> 0 \<and> (265::nat) \<noteq> 260 \<and>
   repeat (bookmark loop_score_third_rest ! nat (sint (loc_digit loop_score_third_rest))) = 1 \<and>
   (1::uint8_t) \<le> 1 \<and> (1::uint8_t) \<le> 254 \<and>
   goto_jumps_count 5 265 loop_score_third_rest = 1 \<and>
   play_score 1249 100 ''[0:3:C]0:'' = Done loop_score_final"
proof -
  have h: "0 \<le> sint (loc_digit loop_score_third_rest)"
    "nat (sint (loc_digit loop_score_third_rest)) < length (bookmark loop_score_third_rest)"
    "position (bookmark loop_score_third_rest ! nat (sint (loc_digit loop_score_third_rest))) = 260"
    "(260::nat) \<noteq> 0" "(265::nat) \<noteq> 260"
    "repeat (bookmark loop_score_third_rest ! nat (sint (loc_digit loop_score_third_rest))) = 1"
    "(1::uint8_t) \<le> 1" "(1::uint8_t) \<le> 254"
    by (simp_all add: loop_score_third_rest_def)
  note t = player_bookmark_loop [OF h, of 5]
  from t have "goto_jumps_count 5 265 loop_score_third_rest = 1" by simp
  moreover from t have "play_score (1249 + 0) 100 ''[0:3:C]0:'' = Done loop_score_final"
    by blast
  ultimately show ?thesis using h by simp
qed

text \<open>Claim C7 as stated fails: on that score four notes are started before the player
  stops, not three; the repeat counter of bookmark 0 is still 1 when the third C has
  been played; and a counter of 3 lets the jump be taken three times, not two.\<close>

theorem player_bookmark_loop_counterexample:
  "play_score 1249 100 ''[0:3:C]0:'' = Done loop_score_final \<and>
   player_is_stopped loop_score_final \<and>
   length (notes_started (tone loop_score_final)) = 4 \<and>
   length (notes_started (tone loop_score_final)) \<noteq> 3 \<and>
   play_score 936 100 ''[0:3:C]0:'' = Done loop_score_third_rest \<and>
   length (notes_started (tone loop_score_third_rest)) = 3 \<and>
   repeat (bookmark loop_score_third_rest ! 0) \<noteq> 0 \<and>
   goto_jumps_count 5 265
     (player_power_up\<lparr>bookmark := (bookmark player_power_up)[0 := \<lparr>position = 260, repeat = 3\<rparr>]\<rparr>)
     = 3 \<and> (3::nat) \<noteq> 3 - 1"
proof -
  have "goto_jumps_count 5 265
     (player_power_up\<lparr>bookmark := (bookmark player_power_up)[0 := \<lparr>position = 260, repeat = 3\<rparr>]\<rparr>)
     = 3"
    by code_simp
  thus ?thesis
    by (simp add: loop_score_1249 loop_score_936 loop_score_observations)
qed


end
